theory Spec2Isabelle
  imports Main "HOL-Library.AList" "HOL-Library.Char_ord" "HOL-Library.List_Lexorder"
begin

section \<open>EntityDB on Google Cloud Storage: a shallow embedding\<close>

text \<open>
  The theory embeds \<^verbatim>\<open>src/entitydb/entitydb.py\<close> (class \<^verbatim>\<open>EntityDB\<close>) and
  \<^verbatim>\<open>src/entitydb/entitydb_gcs.py\<close> (class \<^verbatim>\<open>EntityDB_GCS\<close>). A bucket is the list
  of its blobs, each a name with its payload and content type; Python sets are HOL sets,
  dictionaries are association lists, and every \<^verbatim>\<open>raise\<close> is a value of type
  \<open>error\<close>.
\<close>

subsection \<open>Constants\<close>

definition PRIMARY_KEY :: string where
  "PRIMARY_KEY = ''_uid''"

definition ENTITY_TABLE :: string where
  "ENTITY_TABLE = ''_entities''"

definition ENTITY_REFERENCE :: string where
  "ENTITY_REFERENCE = ''_entity''"

definition BLOBNAME_DELIMITER :: char where
  "BLOBNAME_DELIMITER = CHR ''/''"

definition ENTITY_FOLDER :: string where
  "ENTITY_FOLDER = ''ent''"

definition COMPONENT_FOLDER :: string where
  "COMPONENT_FOLDER = ''cmp''"

definition DATA_FOLDER :: string where
  "DATA_FOLDER = ''dat''"

definition UID_LENGTH :: nat where
  "UID_LENGTH = 16"

text \<open>Python's \<^verbatim>\<open>string.ascii_letters\<close> and \<^verbatim>\<open>string.digits\<close>.\<close>

definition ascii_letters :: string where
  "ascii_letters = ''abcdefghijklmnopqrstuvwxyzABCDEFGHIJKLMNOPQRSTUVWXYZ''"

definition digits :: string where
  "digits = ''0123456789''"

subsection \<open>Errors\<close>

text \<open>
  The exceptions the two classes can raise: the explicit \<^verbatim>\<open>Exception(msg)\<close> of
  \<^verbatim>\<open>delete_entity\<close>, the \<^verbatim>\<open>NotImplementedError\<close> of the base class, and the
  interpreter's own \<^verbatim>\<open>TypeError\<close> (an operation on \<^verbatim>\<open>None\<close>),
  \<^verbatim>\<open>ValueError\<close> (a failed tuple unpacking) and \<^verbatim>\<open>KeyError\<close>.
\<close>

datatype error =
    Exception string
  | NotImplementedError
  | TypeError
  | ValueError
  | KeyError

subsection \<open>Strings\<close>

text \<open>
  \<^verbatim>\<open>str.split(sep)\<close> for a one-character separator: the pieces between the
  occurrences of \<open>sep\<close>; never the empty list.
\<close>

fun split_str :: "char \<Rightarrow> string \<Rightarrow> string list" where
  "split_str sep [] = [[]]"
| "split_str sep (c # cs) =
     (if c = sep then [] # split_str sep cs
      else (case split_str sep cs of
              piece # pieces \<Rightarrow> (c # piece) # pieces
            | [] \<Rightarrow> [[c]]))"

text \<open>\<^verbatim>\<open>str.startswith\<close>.\<close>

fun startswith :: "string \<Rightarrow> string \<Rightarrow> bool" where
  "startswith s [] = True"
| "startswith [] (p # ps) = False"
| "startswith (c # cs) (p # ps) = (c = p \<and> startswith cs ps)"

subsection \<open>The store\<close>

text \<open>
  The state of an \<^verbatim>\<open>EntityDB_GCS\<close>: the blobs of its bucket (name, payload, content
  type), the registered component classes, and the process's random source, given as the
  sequence of its raw draws and the number of draws made so far.
\<close>

record db =
  bucket :: "(string \<times> string \<times> string) list"
  component_classes :: "string list"
  rand :: "nat \<Rightarrow> nat"
  tick :: nat

text \<open>\<^verbatim>\<open>random.choice(seq)\<close>: the element at a random index below \<open>length seq\<close>.\<close>

definition choice :: "string \<Rightarrow> db \<Rightarrow> char \<times> db" where
  "choice seq s = (seq ! (rand s (tick s) mod length seq), s\<lparr>tick := Suc (tick s)\<rparr>)"

text \<open>\<^verbatim>\<open>_random_id\<close>: \<open>n\<close> characters chosen from the letters and digits, in order.\<close>

fun random_id :: "nat \<Rightarrow> db \<Rightarrow> string \<times> db" where
  "random_id 0 s = ([], s)"
| "random_id (Suc n) s =
     (let (c, s1) = choice (ascii_letters @ digits) s;
          (cs, s2) = random_id n s1
      in (c # cs, s2))"

text \<open>\<^verbatim>\<open>_random_eid\<close>: the first character is a digit.\<close>

definition random_eid :: "db \<Rightarrow> string \<times> db" where
  "random_eid s =
     (let (c, s1) = choice digits s;
          (cs, s2) = random_id (UID_LENGTH - 1) s1
      in (c # cs, s2))"

text \<open>\<^verbatim>\<open>_random_cid\<close>: the first character is a letter.\<close>

definition random_cid :: "db \<Rightarrow> string \<times> db" where
  "random_cid s =
     (let (c, s1) = choice ascii_letters s;
          (cs, s2) = random_id (UID_LENGTH - 1) s1
      in (c # cs, s2))"

subsection \<open>Blob names\<close>

text \<open>
  The three names \<^verbatim>\<open>add_entity\<close> and \<^verbatim>\<open>_create_data_blob\<close> build with f-strings:
  \<^verbatim>\<open>ent/{eid}/{name}-{cid}\<close>, \<^verbatim>\<open>cmp/{name}/{eid}-{cid}\<close> and
  \<^verbatim>\<open>dat/{cid}/{varname}\<close>.
\<close>

definition entity_blob_name :: "string \<Rightarrow> string \<Rightarrow> string \<Rightarrow> string" where
  "entity_blob_name eid component_name cid =
     ENTITY_FOLDER @ ''/'' @ eid @ ''/'' @ component_name @ ''-'' @ cid"

definition component_blob_name :: "string \<Rightarrow> string \<Rightarrow> string \<Rightarrow> string" where
  "component_blob_name component_name eid cid =
     COMPONENT_FOLDER @ ''/'' @ component_name @ ''/'' @ eid @ ''-'' @ cid"

definition data_blob_name :: "string \<Rightarrow> string \<Rightarrow> string" where
  "data_blob_name cid varname = DATA_FOLDER @ ''/'' @ cid @ ''/'' @ varname"

text \<open>
  The parsing step of \<^verbatim>\<open>run\<close>:
  \<^verbatim>\<open>eid, cid = blob.name.split(BLOBNAME_DELIMITER)[-1].split("-")\<close>. Unpacking
  anything but two pieces raises \<^verbatim>\<open>ValueError\<close>.
\<close>

definition parse_blob_name :: "string \<Rightarrow> error + (string \<times> string)" where
  "parse_blob_name n =
     (case split_str (CHR ''-'') (last (split_str BLOBNAME_DELIMITER n)) of
        [eid, cid] \<Rightarrow> Inr (eid, cid)
      | _ \<Rightarrow> Inl ValueError)"

subsection \<open>Components, entities and systems\<close>

text \<open>
  Modelled from the spec: the component objects and the class \<^verbatim>\<open>Entity\<close>
  (\<^verbatim>\<open>entitydb/entity.py\<close> is not among the sources). A component has the name of
  its type (\<^verbatim>\<open>type(component).__name__\<close>), its identifier \<^verbatim>\<open>_uid\<close>, absent until
  it is stored, and the declared fields of its type with their values. An entity has its
  identifier \<^verbatim>\<open>uid\<close>, absent until it is stored, the back-reference \<^verbatim>\<open>db\<close> to
  the owning store (here: whether it is set), its loaded components, and the names of the
  component types known but not loaded.
\<close>

record 'v component =
  type_name :: string
  c_uid :: "string option"
  variables :: "(string \<times> 'v) list"

record 'v entity =
  uid :: "string option"
  attached :: bool
  components :: "'v component list"
  unloaded_components :: "string list"

text \<open>
  Modelled from the spec: \<^verbatim>\<open>Entity.get_components\<close>, the loaded components of the
  entity.
\<close>

definition get_components :: "'v entity \<Rightarrow> 'v component list" where
  "get_components e = components e"

text \<open>
  Modelled from the spec: \<^verbatim>\<open>EntityDB.get_variables_of\<close>, which the two classes call
  and do not define: the declared fields of the component's type, each with its value.
\<close>

definition get_variables_of :: "'v component \<Rightarrow> (string \<times> 'v) list" where
  "get_variables_of c = variables c"

text \<open>
  Modelled from the spec: the class \<^verbatim>\<open>SystemWrapper\<close> that \<^verbatim>\<open>_parse_system\<close>
  returns (\<^verbatim>\<open>entitydb/system.py\<close> is not among the sources). \<^verbatim>\<open>run\<close> reads two
  of its attributes: \<^verbatim>\<open>include_components\<close>, a dictionary from parameter names to
  required component types, and \<^verbatim>\<open>exclude_components\<close>, the excluded component
  types. A type stands here by its \<^verbatim>\<open>__name__\<close>.
\<close>

record system_wrapper =
  include_components :: "(string \<times> string) list"
  exclude_components :: "string list"

text \<open>What an f-string prints for an identifier that may be \<^verbatim>\<open>None\<close>.\<close>

fun format_uid :: "string option \<Rightarrow> string" where
  "format_uid None = ''None''"
| "format_uid (Some u) = u"

subsection \<open>Writing blobs\<close>

text \<open>
  \<^verbatim>\<open>bucket.blob(name).upload_from_string(data, content_type)\<close> creates the object
  \<open>name\<close> or replaces its payload. \<^verbatim>\<open>_create_empty_blob\<close> uploads the empty
  string, with the client library's default content type.
\<close>

definition create_empty_blob :: "string \<Rightarrow> db \<Rightarrow> db" where
  "create_empty_blob n s = s\<lparr>bucket := AList.update n ([], ''text/plain'') (bucket s)\<rparr>"

text \<open>
  \<^verbatim>\<open>_create_data_blob\<close>: the blob \<^verbatim>\<open>dat/{cid}/{varname}\<close> receives the serialized
  value. The codec \<^verbatim>\<open>serialize\<close> (\<^verbatim>\<open>entitydb/serializers.py\<close>, not among the
  sources) is the parameter \<open>serialize\<close>: it returns the payload and its content type.
\<close>

definition create_data_blob ::
  "('v \<Rightarrow> string \<times> string) \<Rightarrow> string option \<Rightarrow> string \<Rightarrow> 'v \<Rightarrow> db \<Rightarrow> db" where
  "create_data_blob serialize cid varname data s =
     (let (final_data, mime_type) = serialize data
      in s\<lparr>bucket := AList.update (data_blob_name (format_uid cid) varname)
                         (final_data, mime_type) (bucket s)\<rparr>)"

text \<open>
  Modelled from the spec: \<^verbatim>\<open>_register_component_type\<close>, which \<^verbatim>\<open>add_entity\<close>
  calls and the two classes do not define: the registry \<^verbatim>\<open>component_classes\<close> gains
  the type, keyed by its name, when a component of the type is first stored.
\<close>

definition register_component_type :: "string \<Rightarrow> db \<Rightarrow> db" where
  "register_component_type component_name s =
     s\<lparr>component_classes := List.insert component_name (component_classes s)\<rparr>"

text \<open>The loop \<^verbatim>\<open>for varname in vars: self._create_data_blob(cid, varname, vars[varname])\<close>.\<close>

definition write_variables ::
  "('v \<Rightarrow> string \<times> string) \<Rightarrow> string option \<Rightarrow> (string \<times> 'v) list \<Rightarrow> db \<Rightarrow> db" where
  "write_variables serialize cid vars s =
     fold (\<lambda>(varname, data). create_data_blob serialize cid varname data) vars s"

subsection \<open>\<^verbatim>\<open>add_entity\<close>, \<^verbatim>\<open>update_entity\<close>, \<^verbatim>\<open>delete_entity\<close>, \<^verbatim>\<open>count_matches\<close>\<close>

text \<open>
  The loop of \<^verbatim>\<open>add_entity\<close> over the components of the entity, whose identifier is
  \<open>e_uid\<close> by then: it returns the components with their new identifiers, the list
  \<^verbatim>\<open>component_uids\<close> and the store.
\<close>

fun add_components ::
  "('v \<Rightarrow> string \<times> string) \<Rightarrow> string option \<Rightarrow> 'v component list \<Rightarrow> db
     \<Rightarrow> 'v component list \<times> string list \<times> db" where
  "add_components serialize e_uid [] s = ([], [], s)"
| "add_components serialize e_uid (component # rest) s =
     (let s1 = register_component_type (type_name component) s;
          component_name = type_name component;
          (cid, s2) = random_cid s1;
          component' = component\<lparr>c_uid := Some cid\<rparr>;
          s3 = create_empty_blob
                 (entity_blob_name (format_uid e_uid) component_name (format_uid (c_uid component'))) s2;
          s4 = create_empty_blob
                 (component_blob_name component_name (format_uid e_uid) (format_uid (c_uid component'))) s3;
          s5 = write_variables serialize (c_uid component') (get_variables_of component') s4;
          (rest', component_uids, s6) = add_components serialize e_uid rest s5
      in (component' # rest', cid # component_uids, s6))"

text \<open>
  \<^verbatim>\<open>EntityDB_GCS.add_entity\<close>: the returned identifier, the entity as the call leaves
  it, and the store. The method has no \<^verbatim>\<open>raise\<close> and tests nothing: every path ends in
  \<^verbatim>\<open>return new_eid\<close>, the \<open>Inr\<close> of a result that could name an error.
\<close>

definition add_entity ::
  "('v \<Rightarrow> string \<times> string) \<Rightarrow> 'v entity \<Rightarrow> db \<Rightarrow> error + (string \<times> 'v entity \<times> db)" where
  "add_entity serialize e s =
     (let (new_eid, s1) = random_eid s;
          e1 = e\<lparr>uid := Some new_eid, attached := True\<rparr>;
          (cs, component_uids, s2) = add_components serialize (uid e1) (get_components e1) s1
      in Inr (new_eid, e1\<lparr>components := cs\<rparr>, s2))"

text \<open>\<^verbatim>\<open>EntityDB_GCS.update_entity\<close>; it returns nothing.\<close>

definition update_entity :: "('v \<Rightarrow> string \<times> string) \<Rightarrow> 'v entity \<Rightarrow> db \<Rightarrow> db" where
  "update_entity serialize e s =
     fold (\<lambda>component. write_variables serialize (c_uid component) (get_variables_of component))
       (get_components e) s"

text \<open>The methods of the base class \<^verbatim>\<open>EntityDB\<close> that only raise.\<close>

definition EntityDB_delete_entity :: "'v entity \<Rightarrow> db \<Rightarrow> (error + unit) \<times> db" where
  "EntityDB_delete_entity e s = (Inl NotImplementedError, s)"

definition EntityDB_count_matches :: "'f \<Rightarrow> db \<Rightarrow> (error + nat) \<times> db" where
  "EntityDB_count_matches system_func s = (Inl NotImplementedError, s)"

text \<open>
  \<^verbatim>\<open>EntityDB_GCS.delete_entity\<close>. \<^verbatim>\<open>not entity.uid\<close> holds for \<^verbatim>\<open>None\<close> and
  for the empty string.
\<close>

definition delete_entity :: "'v entity \<Rightarrow> db \<Rightarrow> (error + unit) \<times> db" where
  "delete_entity e s =
     (if uid e = None \<or> uid e = Some []
      then (Inl (Exception ''Entity has not been saved yet''), s)
      else EntityDB_delete_entity e s)"

text \<open>\<^verbatim>\<open>EntityDB_GCS.count_matches\<close>: \<^verbatim>\<open>return super().count_matches(system_func)\<close>.\<close>

definition count_matches :: "'f \<Rightarrow> db \<Rightarrow> (error + nat) \<times> db" where
  "count_matches system_func s = EntityDB_count_matches system_func s"

subsection \<open>\<^verbatim>\<open>run\<close>\<close>

text \<open>
  \<^verbatim>\<open>_search_blobs(prefix)\<close> lists the bucket with \<^verbatim>\<open>prefix\<close> and the delimiter
  \<^verbatim>\<open>/\<close>: the storage service returns the objects whose name starts with the prefix
  and has no delimiter after it, in the lexicographic order of their names.
\<close>

definition search_blobs :: "string \<Rightarrow> db \<Rightarrow> string list" where
  "search_blobs pre s =
     sort (filter (\<lambda>n. startswith n pre \<and> BLOBNAME_DELIMITER \<notin> set (drop (length pre) n))
             (map fst (bucket s)))"

text \<open>
  The inner loop of the first phase of \<^verbatim>\<open>run\<close>, over the blobs of one required type:
  it fills \<^verbatim>\<open>found_components\<close> and \<^verbatim>\<open>all_entities\<close>.
\<close>

fun include_blobs ::
  "string \<Rightarrow> string list \<Rightarrow> string set \<Rightarrow> (string \<times> (string \<times> string) list) list
     \<Rightarrow> error + (string set \<times> (string \<times> (string \<times> string) list) list)" where
  "include_blobs component_name [] found_components all_entities =
     Inr (found_components, all_entities)"
| "include_blobs component_name (n # blobs) found_components all_entities =
     (case parse_blob_name n of
        Inl err \<Rightarrow> Inl err
      | Inr (eid, cid) \<Rightarrow>
          include_blobs component_name blobs (insert eid found_components)
            (case map_of all_entities eid of
               Some d \<Rightarrow> AList.update eid (AList.update component_name cid d) all_entities
             | None \<Rightarrow> AList.update eid [(component_name, cid)] all_entities))"

text \<open>
  The first phase, over \<^verbatim>\<open>system.include_components\<close>. \<^verbatim>\<open>matched_eids\<close> starts as
  \<^verbatim>\<open>None\<close>; the test \<^verbatim>\<open>if matched_eids:\<close> is false for \<^verbatim>\<open>None\<close> and for the
  empty set.
\<close>

fun include_loop ::
  "(string \<times> string) list \<Rightarrow> db \<Rightarrow> string set option \<Rightarrow> (string \<times> (string \<times> string) list) list
     \<Rightarrow> error + (string set option \<times> (string \<times> (string \<times> string) list) list)" where
  "include_loop [] s matched_eids all_entities = Inr (matched_eids, all_entities)"
| "include_loop ((var_name, component_name) # rest) s matched_eids all_entities =
     (case include_blobs component_name
             (search_blobs (COMPONENT_FOLDER @ ''/'' @ component_name @ ''/'') s) {} all_entities of
        Inl err \<Rightarrow> Inl err
      | Inr (found_components, all_entities') \<Rightarrow>
          include_loop rest s
            (case matched_eids of
               Some m \<Rightarrow> if m \<noteq> {} then Some (m \<inter> found_components) else Some found_components
             | None \<Rightarrow> Some found_components)
            all_entities')"

text \<open>The inner loop of the second phase: the entity identifiers of one excluded type.\<close>

fun exclude_blobs :: "string list \<Rightarrow> string set \<Rightarrow> error + string set" where
  "exclude_blobs [] exclude_eids = Inr exclude_eids"
| "exclude_blobs (n # blobs) exclude_eids =
     (case parse_blob_name n of
        Inl err \<Rightarrow> Inl err
      | Inr (eid, cid) \<Rightarrow> exclude_blobs blobs (insert eid exclude_eids))"

text \<open>
  The second phase, over \<^verbatim>\<open>system.exclude_components\<close>:
  \<^verbatim>\<open>matched_eids -= exclude_eids\<close> raises \<^verbatim>\<open>TypeError\<close> on \<^verbatim>\<open>None\<close>.
\<close>

fun exclude_loop :: "string list \<Rightarrow> db \<Rightarrow> string set option \<Rightarrow> error + string set option" where
  "exclude_loop [] s matched_eids = Inr matched_eids"
| "exclude_loop (component # rest) s matched_eids =
     (case exclude_blobs (search_blobs (COMPONENT_FOLDER @ ''/'' @ component @ ''/'') s) {} of
        Inl err \<Rightarrow> Inl err
      | Inr exclude_eids \<Rightarrow>
          (case matched_eids of
             None \<Rightarrow> Inl TypeError
           | Some m \<Rightarrow> exclude_loop rest s (Some (m - exclude_eids))))"

text \<open>
  The two phases together: \<^verbatim>\<open>matched_eids\<close> and \<^verbatim>\<open>all_entities\<close> as they are when
  \<^verbatim>\<open>run\<close> reaches the comment \<^verbatim>\<open>Load the components of the matched eids\<close>.
\<close>

definition run_match ::
  "system_wrapper \<Rightarrow> db
     \<Rightarrow> error + (string set option \<times> (string \<times> (string \<times> string) list) list)" where
  "run_match system s =
     (case include_loop (include_components system) s None [] of
        Inl err \<Rightarrow> Inl err
      | Inr (matched_eids, all_entities) \<Rightarrow>
          (case exclude_loop (exclude_components system) s matched_eids of
             Inl err \<Rightarrow> Inl err
           | Inr matched_eids' \<Rightarrow> Inr (matched_eids', all_entities)))"

text \<open>
  \<^verbatim>\<open>EntityDB_GCS.run\<close>, for the system that \<^verbatim>\<open>_parse_system\<close> returned, up to its
  last line: the result is the dictionary \<^verbatim>\<open>matched_entities\<close> that \<^verbatim>\<open>run\<close> hands
  to \<^verbatim>\<open>_run_on_entities\<close> (which the two classes do not define). Iterating over
  \<^verbatim>\<open>None\<close> raises \<^verbatim>\<open>TypeError\<close>; a matched identifier missing from
  \<^verbatim>\<open>all_entities\<close> raises \<^verbatim>\<open>KeyError\<close>.
\<close>

definition run ::
  "system_wrapper \<Rightarrow> db \<Rightarrow> error + (string \<rightharpoonup> (string \<times> string) list)" where
  "run system s =
     (case run_match system s of
        Inl err \<Rightarrow> Inl err
      | Inr (None, all_entities) \<Rightarrow> Inl TypeError
      | Inr (Some matched_eids, all_entities) \<Rightarrow>
          if matched_eids \<subseteq> fst ` set all_entities
          then Inr (map_of all_entities |` matched_eids)
          else Inl KeyError)"

text \<open>
  The type index as the blobs give it: the pairs (entity identifier, component identifier)
  of the well-formed blobs listed under \<^verbatim>\<open>cmp/{type name}/\<close>, and the entity
  identifiers among them.
\<close>

definition type_index :: "string \<Rightarrow> db \<Rightarrow> (string \<times> string) list" where
  "type_index component_name s =
     List.map_filter (\<lambda>n. case parse_blob_name n of Inl err \<Rightarrow> None | Inr p \<Rightarrow> Some p)
       (search_blobs (COMPONENT_FOLDER @ ''/'' @ component_name @ ''/'') s)"

definition type_eids :: "string \<Rightarrow> db \<Rightarrow> string set" where
  "type_eids component_name s = fst ` set (type_index component_name s)"

text \<open>
  The matching of the specification, in its words: the intersection of the entity
  identifier sets of the required types, less the entity identifier set of every excluded
  type.
\<close>

definition spec_required :: "string list \<Rightarrow> db \<Rightarrow> string set" where
  "spec_required required s = (\<Inter>t \<in> set required. type_eids t s)"

definition spec_matched :: "string list \<Rightarrow> string list \<Rightarrow> db \<Rightarrow> string set" where
  "spec_matched required excluded s = spec_required required s - (\<Union>t \<in> set excluded. type_eids t s)"

subsection \<open>\<^verbatim>\<open>_create_component_from_data\<close>\<close>

text \<open>
  The loop of \<^verbatim>\<open>EntityDB._create_component_from_data\<close> over the fetched fields: it
  builds the dictionary \<^verbatim>\<open>component_values\<close>.
\<close>

definition component_values :: "(string \<times> 'v) list \<Rightarrow> (string \<times> 'v) list" where
  "component_values component_data =
     fold (\<lambda>(varname, v) values.
             if varname \<notin> set [PRIMARY_KEY, ENTITY_REFERENCE]
             then AList.update varname v values else values)
       component_data []"

text \<open>
  \<^verbatim>\<open>component_type(**component_values)\<close>: the constructor is the parameter
  \<open>component_type\<close>, applied to its keyword arguments.
\<close>

definition create_component_from_data ::
  "((string \<times> 'v) list \<Rightarrow> 'c) \<Rightarrow> (string \<times> 'v) list \<Rightarrow> 'c" where
  "create_component_from_data component_type component_data =
     component_type (component_values component_data)"

subsection \<open>The field-store entries of a component\<close>

text \<open>
  The uploads that the loop over \<^verbatim>\<open>vars\<close> makes for one component, in order: the
  blob name \<^verbatim>\<open>dat/{component._uid}/{varname}\<close> with the serialized value; and the set
  of these names.
\<close>

definition field_writes ::
  "('v \<Rightarrow> string \<times> string) \<Rightarrow> 'v component \<Rightarrow> (string \<times> string \<times> string) list" where
  "field_writes serialize c =
     map (\<lambda>(varname, data). (data_blob_name (format_uid (c_uid c)) varname, serialize data))
       (get_variables_of c)"

definition field_blob_names :: "'v component \<Rightarrow> string set" where
  "field_blob_names c =
     (\<lambda>varname. data_blob_name (format_uid (c_uid c)) varname) ` fst ` set (get_variables_of c)"

subsection \<open>What \<^verbatim>\<open>add_entity\<close> draws and uploads\<close>

text \<open>
  A sequence of uploads applied to the blobs of a bucket, in order: each creates its blob or
  replaces the payload of the blob of that name.
\<close>

definition upload_all ::
  "(string \<times> string \<times> string) list \<Rightarrow> (string \<times> string \<times> string) list
     \<Rightarrow> (string \<times> string \<times> string) list" where
  "upload_all uploads blobs = fold (\<lambda>(n, payload). AList.update n payload) uploads blobs"

text \<open>
  The uploads of \<^verbatim>\<open>add_entity\<close> for one component that has its identifier, in order:
  the empty forward-index blob \<^verbatim>\<open>ent/{eid}/{type}-{cid}\<close>, the empty type-index blob
  \<^verbatim>\<open>cmp/{type}/{eid}-{cid}\<close>, and one blob \<^verbatim>\<open>dat/{cid}/{varname}\<close> with the
  serialized value for each declared field.
\<close>

definition component_writes ::
  "('v \<Rightarrow> string \<times> string) \<Rightarrow> string \<Rightarrow> 'v component \<Rightarrow> (string \<times> string \<times> string) list" where
  "component_writes serialize eid c =
     [(entity_blob_name eid (type_name c) (format_uid (c_uid c)), ([], ''text/plain'')),
      (component_blob_name (type_name c) eid (format_uid (c_uid c)), ([], ''text/plain''))]
     @ field_writes serialize c"

text \<open>
  The identifier that \<^verbatim>\<open>_random_cid\<close> draws for component number \<open>k\<close> (from 0)
  of an entity added to the store \<open>s\<close>: the entity identifier takes the first
  \<^verbatim>\<open>UID_LENGTH\<close> draws of the random source, each component identifier the next
  \<^verbatim>\<open>UID_LENGTH\<close>. And the components of an entity, each with the identifier drawn for it.
\<close>

definition drawn_cid :: "db \<Rightarrow> nat \<Rightarrow> string" where
  "drawn_cid s k = fst (random_cid (s\<lparr>tick := tick s + UID_LENGTH * Suc k\<rparr>))"

definition with_drawn_cids :: "db \<Rightarrow> 'v component list \<Rightarrow> 'v component list" where
  "with_drawn_cids s cs = map (\<lambda>(k, c). c\<lparr>c_uid := Some (drawn_cid s k)\<rparr>) (enumerate 0 cs)"

subsection \<open>Example data\<close>

text \<open>
  Concrete inputs for the evaluations below: a random source whose every draw is 0, a codec
  that stores a text as it is, an empty store, and a store holding two entities: the first
  with a component \<open>A\<close> and a component \<open>B\<close>, the second with a component
  \<open>A\<close> only.
\<close>

definition zero_draws :: "nat \<Rightarrow> nat" where
  "zero_draws i = 0"

definition plain_text :: "string \<Rightarrow> string \<times> string" where
  "plain_text v = (v, ''text/plain'')"

definition empty_db :: db where
  "empty_db = \<lparr>bucket = [], component_classes = [], rand = zero_draws, tick = 0\<rparr>"

definition example_db :: db where
  "example_db =
     \<lparr>bucket =
        [(''ent/1aaaaaaaaaaaaaaa/A-paaaaaaaaaaaaaaa'', [], ''text/plain''),
         (''cmp/A/1aaaaaaaaaaaaaaa-paaaaaaaaaaaaaaa'', [], ''text/plain''),
         (''dat/paaaaaaaaaaaaaaa/x'', ''1'', ''text/plain''),
         (''ent/1aaaaaaaaaaaaaaa/B-qaaaaaaaaaaaaaaa'', [], ''text/plain''),
         (''cmp/B/1aaaaaaaaaaaaaaa-qaaaaaaaaaaaaaaa'', [], ''text/plain''),
         (''dat/qaaaaaaaaaaaaaaa/dx'', ''2'', ''text/plain''),
         (''ent/2aaaaaaaaaaaaaaa/A-raaaaaaaaaaaaaaa'', [], ''text/plain''),
         (''cmp/A/2aaaaaaaaaaaaaaa-raaaaaaaaaaaaaaa'', [], ''text/plain''),
         (''dat/raaaaaaaaaaaaaaa/x'', ''5'', ''text/plain'')],
      component_classes = [''A'', ''B''], rand = zero_draws, tick = 0\<rparr>"

definition component_A :: "string component" where
  "component_A = \<lparr>type_name = ''A'', c_uid = None, variables = [(''x'', ''1'')]\<rparr>"

definition component_B :: "string component" where
  "component_B = \<lparr>type_name = ''B'', c_uid = None, variables = [(''dx'', ''2'')]\<rparr>"

definition new_entity_A :: "string entity" where
  "new_entity_A =
     \<lparr>uid = None, attached = False, components = [component_A], unloaded_components = []\<rparr>"

definition new_entity_AB :: "string entity" where
  "new_entity_AB =
     \<lparr>uid = None, attached = False, components = [component_A, component_B],
      unloaded_components = []\<rparr>"

text \<open>
  An empty store whose random source draws 0, 1, 2, ... in turn; and the store that
  \<^verbatim>\<open>add_entity\<close> makes of \<open>new_entity_A\<close> from the empty store when every draw
  is 0.
\<close>

definition counting_draws :: "nat \<Rightarrow> nat" where
  "counting_draws i = i"

definition counting_db :: db where
  "counting_db = \<lparr>bucket = [], component_classes = [], rand = counting_draws, tick = 0\<rparr>"

definition db_with_A :: db where
  "db_with_A =
     \<lparr>bucket =
        [(''ent/0aaaaaaaaaaaaaaa/A-aaaaaaaaaaaaaaaa'', [], ''text/plain''),
         (''cmp/A/0aaaaaaaaaaaaaaa-aaaaaaaaaaaaaaaa'', [], ''text/plain''),
         (''dat/aaaaaaaaaaaaaaaa/x'', ''1'', ''text/plain'')],
      component_classes = [''A''], rand = zero_draws, tick = 32\<rparr>"

text \<open>
  An entity whose two components both declare a field \<^verbatim>\<open>x\<close>; the store that
  \<^verbatim>\<open>add_entity\<close> makes of it from the empty store when every draw is 0; and that entity
  as a handle with its component \<open>A\<close> loaded, its value changed to 7, and its component
  \<open>B\<close> not loaded.
\<close>

definition component_B_x :: "string component" where
  "component_B_x = \<lparr>type_name = ''B'', c_uid = None, variables = [(''x'', ''2'')]\<rparr>"

definition new_entity_AB_x :: "string entity" where
  "new_entity_AB_x =
     \<lparr>uid = None, attached = False, components = [component_A, component_B_x],
      unloaded_components = []\<rparr>"

definition collided_db :: db where
  "collided_db =
     \<lparr>bucket =
        [(''ent/0aaaaaaaaaaaaaaa/A-aaaaaaaaaaaaaaaa'', [], ''text/plain''),
         (''cmp/A/0aaaaaaaaaaaaaaa-aaaaaaaaaaaaaaaa'', [], ''text/plain''),
         (''dat/aaaaaaaaaaaaaaaa/x'', ''2'', ''text/plain''),
         (''ent/0aaaaaaaaaaaaaaa/B-aaaaaaaaaaaaaaaa'', [], ''text/plain''),
         (''cmp/B/0aaaaaaaaaaaaaaa-aaaaaaaaaaaaaaaa'', [], ''text/plain'')],
      component_classes = [''B'', ''A''], rand = zero_draws, tick = 48\<rparr>"

definition collided_entity_A :: "string entity" where
  "collided_entity_A =
     \<lparr>uid = Some ''0aaaaaaaaaaaaaaa'', attached = True,
      components = [\<lparr>type_name = ''A'', c_uid = Some ''aaaaaaaaaaaaaaaa'', variables = [(''x'', ''7'')]\<rparr>],
      unloaded_components = [''B'']\<rparr>"

text \<open>
  The first entity of \<open>example_db\<close> as a handle with its component \<open>A\<close>
  loaded, its value changed to 7, and its component \<open>B\<close> not loaded.
\<close>

definition loaded_entity_A :: "string entity" where
  "loaded_entity_A =
     \<lparr>uid = Some ''1aaaaaaaaaaaaaaa'', attached = True,
      components = [\<lparr>type_name = ''A'', c_uid = Some ''paaaaaaaaaaaaaaa'', variables = [(''x'', ''7'')]\<rparr>],
      unloaded_components = [''B'']\<rparr>"

section \<open>Properties\<close>

subsection \<open>Splitting\<close>

lemma split_str_not_Nil: "split_str sep s \<noteq> []"
  by (induction s) (simp_all split: list.split)

lemma split_str_no_sep: "sep \<notin> set s \<Longrightarrow> split_str sep s = [s]"
  by (induction s) auto

lemma split_str_first: "sep \<notin> set xs \<Longrightarrow> split_str sep (xs @ sep # ys) = xs # split_str sep ys"
  by (induction xs) auto

lemma last_split_str_append:
  "last (split_str sep (xs @ sep # ys)) = last (split_str sep ys)"
proof (induction xs)
  case Nil
  show ?case by (simp add: split_str_not_Nil)
next
  case (Cons x xs)
  obtain piece pieces where r: "split_str sep (xs @ sep # ys) = piece # pieces"
    using split_str_not_Nil [of sep "xs @ sep # ys"] by (cases "split_str sep (xs @ sep # ys)") auto
  have "pieces \<noteq> []"
    using r
  proof (induction xs arbitrary: piece pieces)
    case Nil
    then show ?case using split_str_not_Nil [of sep ys] by auto
  next
    case (Cons z zs)
    then show ?case by (auto split: if_splits list.splits simp: split_str_not_Nil)
  qed
  then show ?case using Cons.IH r by (simp add: split_str_not_Nil)
qed

subsection \<open>Random identifiers\<close>

lemma choice_in_set: "seq \<noteq> [] \<Longrightarrow> fst (choice seq s) \<in> set seq"
  by (simp add: choice_def)

lemma random_id_chars: "set (fst (random_id n s)) \<subseteq> set (ascii_letters @ digits)"
proof (induction n arbitrary: s)
  case 0
  show ?case by simp
next
  case (Suc n)
  have ne: "ascii_letters @ digits \<noteq> []" by (simp add: ascii_letters_def)
  obtain c s1 where c: "choice (ascii_letters @ digits) s = (c, s1)" by (cases "choice (ascii_letters @ digits) s")
  obtain cs s2 where cs: "random_id n s1 = (cs, s2)" by (cases "random_id n s1")
  have "c \<in> set (ascii_letters @ digits)" using choice_in_set [OF ne, of s] c by simp
  moreover have "set cs \<subseteq> set (ascii_letters @ digits)" using Suc.IH [of s1] cs by simp
  ultimately show ?case using c cs by simp
qed

lemma random_id_length: "length (fst (random_id n s)) = n"
proof (induction n arbitrary: s)
  case 0
  show ?case by simp
next
  case (Suc n)
  obtain c s1 where c: "choice (ascii_letters @ digits) s = (c, s1)" by (cases "choice (ascii_letters @ digits) s")
  obtain cs s2 where cs: "random_id n s1 = (cs, s2)" by (cases "random_id n s1")
  show ?case using Suc.IH [of s1] c cs by simp
qed

lemma random_eid_chars: "set (fst (random_eid s)) \<subseteq> set (ascii_letters @ digits)"
proof -
  obtain c s1 where c: "choice digits s = (c, s1)" by (cases "choice digits s")
  obtain cs s2 where cs: "random_id (UID_LENGTH - 1) s1 = (cs, s2)" by (cases "random_id (UID_LENGTH - 1) s1")
  have "c \<in> set digits" using choice_in_set [of digits s] c by (simp add: digits_def)
  moreover have "set cs \<subseteq> set (ascii_letters @ digits)" using random_id_chars [of "UID_LENGTH - 1" s1] cs by simp
  ultimately show ?thesis using c cs by (auto simp: random_eid_def)
qed

lemma random_cid_chars: "set (fst (random_cid s)) \<subseteq> set (ascii_letters @ digits)"
proof -
  obtain c s1 where c: "choice ascii_letters s = (c, s1)" by (cases "choice ascii_letters s")
  obtain cs s2 where cs: "random_id (UID_LENGTH - 1) s1 = (cs, s2)" by (cases "random_id (UID_LENGTH - 1) s1")
  have "c \<in> set ascii_letters" using choice_in_set [of ascii_letters s] c by (simp add: ascii_letters_def)
  moreover have "set cs \<subseteq> set (ascii_letters @ digits)" using random_id_chars [of "UID_LENGTH - 1" s1] cs by simp
  ultimately show ?thesis using c cs by (auto simp: random_cid_def)
qed

lemma random_eid_length: "length (fst (random_eid s)) = UID_LENGTH"
proof -
  obtain c s1 where c: "choice digits s = (c, s1)" by (cases "choice digits s")
  obtain cs s2 where cs: "random_id (UID_LENGTH - 1) s1 = (cs, s2)" by (cases "random_id (UID_LENGTH - 1) s1")
  have "length cs = UID_LENGTH - 1" using random_id_length [of "UID_LENGTH - 1" s1] cs by simp
  then show ?thesis using c cs by (simp add: random_eid_def UID_LENGTH_def)
qed

lemma random_cid_length: "length (fst (random_cid s)) = UID_LENGTH"
proof -
  obtain c s1 where c: "choice ascii_letters s = (c, s1)" by (cases "choice ascii_letters s")
  obtain cs s2 where cs: "random_id (UID_LENGTH - 1) s1 = (cs, s2)" by (cases "random_id (UID_LENGTH - 1) s1")
  have "length cs = UID_LENGTH - 1" using random_id_length [of "UID_LENGTH - 1" s1] cs by simp
  then show ?thesis using c cs by (simp add: random_cid_def UID_LENGTH_def)
qed

lemma alphabet_no_separators:
  "CHR ''-'' \<notin> set (ascii_letters @ digits)" "CHR ''/'' \<notin> set (ascii_letters @ digits)"
  by (simp_all add: ascii_letters_def digits_def)

subsection \<open>Blob names round-trip\<close>

lemma parse_component_blob_name:
  assumes "CHR ''/'' \<notin> set eid" "CHR ''-'' \<notin> set eid"
    and "CHR ''/'' \<notin> set cid" "CHR ''-'' \<notin> set cid"
  shows "parse_blob_name (component_blob_name component_name eid cid) = Inr (eid, cid)"
proof -
  have nm: "component_blob_name component_name eid cid
      = (COMPONENT_FOLDER @ ''/'' @ component_name) @ CHR ''/'' # (eid @ ''-'' @ cid)"
    by (simp add: component_blob_name_def)
  have "CHR ''/'' \<notin> set (eid @ ''-'' @ cid)" using assms by simp
  then have "last (split_str (CHR ''/'') (component_blob_name component_name eid cid)) = eid @ ''-'' @ cid"
    unfolding nm last_split_str_append by (simp add: split_str_no_sep)
  moreover have "split_str (CHR ''-'') (eid @ ''-'' @ cid) = [eid, cid]"
    using assms split_str_first [of "CHR ''-''" eid cid] by (simp add: split_str_no_sep)
  ultimately show ?thesis by (simp add: parse_blob_name_def BLOBNAME_DELIMITER_def)
qed

text \<open>
  Claim C10. An entity identifier made by \<^verbatim>\<open>_random_eid\<close> and a component identifier
  made by \<^verbatim>\<open>_random_cid\<close> are 16 characters long, all letters or digits, so neither
  holds a \<^verbatim>\<open>-\<close> or a \<^verbatim>\<open>/\<close>; the type-index blob name
  \<^verbatim>\<open>cmp/{type name}/{eid}-{cid}\<close> built from them, parsed the way \<^verbatim>\<open>run\<close> parses
  it (the piece after the last \<^verbatim>\<open>/\<close>, split at \<^verbatim>\<open>-\<close>), gives back exactly the
  pair \<open>(eid, cid)\<close>, whatever the type name and the random draws.
\<close>

theorem blob_name_roundtrip:
  "length (fst (random_eid s)) = 16
   \<and> length (fst (random_cid s')) = 16
   \<and> set (fst (random_eid s)) \<subseteq> set (ascii_letters @ digits)
   \<and> set (fst (random_cid s')) \<subseteq> set (ascii_letters @ digits)
   \<and> parse_blob_name (component_blob_name component_name (fst (random_eid s)) (fst (random_cid s')))
       = Inr (fst (random_eid s), fst (random_cid s'))"
proof -
  have e: "CHR ''/'' \<notin> set (fst (random_eid s))" "CHR ''-'' \<notin> set (fst (random_eid s))"
    using random_eid_chars [of s] alphabet_no_separators by blast+
  have c: "CHR ''/'' \<notin> set (fst (random_cid s'))" "CHR ''-'' \<notin> set (fst (random_cid s'))"
    using random_cid_chars [of s'] alphabet_no_separators by blast+
  have "length (fst (random_eid s)) = 16" "length (fst (random_cid s')) = 16"
    using random_eid_length [of s] random_cid_length [of s'] by (simp_all add: UID_LENGTH_def)
  then show ?thesis
    using random_eid_chars [of s] random_cid_chars [of s'] parse_component_blob_name [OF e c]
    by simp
qed

subsection \<open>The two phases of \<^verbatim>\<open>run\<close>\<close>

lemmas run_eval =
  insert_Diff_if run_def run_match_def search_blobs_def COMPONENT_FOLDER_def BLOBNAME_DELIMITER_def
  parse_blob_name_def example_db_def

lemmas type_eids_eval = type_eids_def type_index_def List.map_filter_simps

lemma parse_blob_name_error: "parse_blob_name n = Inl err \<Longrightarrow> err = ValueError"
  by (auto simp: parse_blob_name_def split: list.splits)

lemma exclude_blobs_error: "exclude_blobs blobs acc = Inl err \<Longrightarrow> err = ValueError"
  by (induction blobs arbitrary: acc) (auto split: sum.splits dest: parse_blob_name_error)

lemma exclude_blobs_result:
  "exclude_blobs blobs acc = Inr r \<Longrightarrow>
     r = acc \<union> fst ` set (List.map_filter
           (\<lambda>n. case parse_blob_name n of Inl err \<Rightarrow> None | Inr p \<Rightarrow> Some p) blobs)"
  by (induction blobs arbitrary: acc) (auto simp: List.map_filter_simps split: sum.splits)

lemma include_blobs_result:
  "include_blobs component_name blobs acc all_entities = Inr (found, all_entities') \<Longrightarrow>
     found = acc \<union> fst ` set (List.map_filter
           (\<lambda>n. case parse_blob_name n of Inl err \<Rightarrow> None | Inr p \<Rightarrow> Some p) blobs)"
  by (induction blobs arbitrary: acc all_entities) (auto simp: List.map_filter_simps split: sum.splits)

lemma exclude_blobs_type_eids:
  "exclude_blobs (search_blobs (COMPONENT_FOLDER @ ''/'' @ t @ ''/'') s) {} = Inr r \<Longrightarrow> r = type_eids t s"
  by (drule exclude_blobs_result) (simp add: type_eids_def type_index_def)

lemma include_blobs_type_eids:
  "include_blobs t (search_blobs (COMPONENT_FOLDER @ ''/'' @ t @ ''/'') s) {} all_entities
     = Inr (found, all_entities') \<Longrightarrow> found = type_eids t s"
  by (drule include_blobs_result) (simp add: type_eids_def type_index_def)

lemma exclude_loop_None: "exclude_loop excluded s None = Inr r \<Longrightarrow> excluded = [] \<and> r = None"
  by (cases excluded) (auto split: sum.splits)

lemma exclude_loop_Some:
  "exclude_loop excluded s (Some m) = Inr r \<Longrightarrow> r = Some (m - (\<Union>t \<in> set excluded. type_eids t s))"
proof (induction excluded arbitrary: m)
  case Nil
  then show ?case by simp
next
  case (Cons t rest)
  from Cons.prems obtain ex
    where ex: "exclude_blobs (search_blobs (COMPONENT_FOLDER @ ''/'' @ t @ ''/'') s) {} = Inr ex"
      and rest: "exclude_loop rest s (Some (m - ex)) = Inr r"
    by (auto split: sum.splits)
  have "ex = type_eids t s" using ex by (rule exclude_blobs_type_eids)
  moreover have "r = Some (m - ex - (\<Union>t \<in> set rest. type_eids t s))" using Cons.IH [OF rest] .
  ultimately show ?case by auto
qed

text \<open>
  Claim C1. The matched set of \<^verbatim>\<open>run\<close> should be the intersection of the entity
  identifier sets of the required types. The code tests \<^verbatim>\<open>if matched_eids:\<close>, which is
  false for the empty set as it is for \<^verbatim>\<open>None\<close>, so an empty intermediate result is
  replaced by the next type's set instead of staying empty. In the example store no entity
  has a component \<open>C\<close>, and a system requiring \<open>C\<close> and then \<open>A\<close> matches
  both entities that have \<open>A\<close>, among them the entity with the components
  \<open>A\<close> and \<open>B\<close>; the intersection is empty.
\<close>

theorem run_required_resets_empty:
  "run_match \<lparr>include_components = [(''c'', ''C''), (''a'', ''A'')], exclude_components = []\<rparr> example_db
     = Inr (Some {''2aaaaaaaaaaaaaaa'', ''1aaaaaaaaaaaaaaa''},
            [(''1aaaaaaaaaaaaaaa'', [(''A'', ''paaaaaaaaaaaaaaa'')]),
             (''2aaaaaaaaaaaaaaa'', [(''A'', ''raaaaaaaaaaaaaaa'')])])
   \<and> type_eids ''C'' example_db = {}
   \<and> type_eids ''A'' example_db = {''1aaaaaaaaaaaaaaa'', ''2aaaaaaaaaaaaaaa''}
   \<and> spec_required [''C'', ''A''] example_db = {}"
  by (simp add: spec_required_def type_eids_eval run_eval)

text \<open>
  Claim C2. With no required component type \<^verbatim>\<open>run\<close> should take every known entity
  as a candidate and not fail. In the code \<^verbatim>\<open>matched_eids\<close> is still \<^verbatim>\<open>None\<close>
  after the first phase, and the call raises: \<^verbatim>\<open>TypeError\<close> at the first subtraction
  or at the final iteration, unless a blob name of an excluded type fails to parse first
  (\<^verbatim>\<open>ValueError\<close>). It never returns a result.
\<close>

theorem run_no_required_raises:
  "run \<lparr>include_components = [], exclude_components = excluded\<rparr> s \<in> {Inl TypeError, Inl ValueError}"
proof (cases excluded)
  case Nil
  then show ?thesis by (simp add: run_def run_match_def)
next
  case (Cons t rest)
  show ?thesis
  proof (cases "exclude_blobs (search_blobs (COMPONENT_FOLDER @ ''/'' @ t @ ''/'') s) {}")
    case (Inl err)
    then have "err = ValueError" by (rule exclude_blobs_error)
    then show ?thesis using Cons Inl by (simp add: run_def run_match_def)
  next
    case (Inr ex)
    then show ?thesis using Cons by (simp add: run_def run_match_def)
  qed
qed

text \<open>
  Claim C3. Whenever \<^verbatim>\<open>run\<close> reaches its executor, the entities it passes on are the
  candidates that the first phase left, less the whole entity identifier set of every
  excluded type: an entity that has a component of an excluded type is not among them,
  whatever else it has.
\<close>

theorem run_excludes:
  assumes "run system s = Inr matched_entities"
  shows "(\<exists>candidates all_entities.
            include_loop (include_components system) s None [] = Inr (Some candidates, all_entities)
            \<and> dom matched_entities
                = candidates - (\<Union>t \<in> set (exclude_components system). type_eids t s))
         \<and> (\<forall>t \<in> set (exclude_components system). \<forall>eid \<in> type_eids t s. eid \<notin> dom matched_entities)"
proof -
  from assms obtain matched_eids all_entities
    where rm: "run_match system s = Inr (Some matched_eids, all_entities)"
      and sub: "matched_eids \<subseteq> fst ` set all_entities"
      and me: "matched_entities = map_of all_entities |` matched_eids"
    by (auto simp: run_def split: sum.splits option.splits if_splits)
  from rm obtain cand
    where inc: "include_loop (include_components system) s None [] = Inr (cand, all_entities)"
      and exc: "exclude_loop (exclude_components system) s cand = Inr (Some matched_eids)"
    by (auto simp: run_match_def split: sum.splits)
  from exc obtain candidates where cand: "cand = Some candidates"
    by (cases cand) (auto dest: exclude_loop_None)
  have m: "matched_eids = candidates - (\<Union>t \<in> set (exclude_components system). type_eids t s)"
    using exclude_loop_Some exc cand by blast
  have "dom (map_of all_entities) = fst ` set all_entities" by (rule dom_map_of_conv_image_fst)
  then have d: "dom matched_entities = matched_eids" using sub me by auto
  show ?thesis using inc cand m d by auto
qed

theorem run_excludes_witness:
  "run \<lparr>include_components = [(''a'', ''A'')], exclude_components = [''B'']\<rparr> example_db
     = Inr (map_of [(''1aaaaaaaaaaaaaaa'', [(''A'', ''paaaaaaaaaaaaaaa'')]),
                    (''2aaaaaaaaaaaaaaa'', [(''A'', ''raaaaaaaaaaaaaaa'')])] |` {''2aaaaaaaaaaaaaaa''})
   \<and> ''1aaaaaaaaaaaaaaa'' \<in> type_eids ''A'' example_db
   \<and> ''1aaaaaaaaaaaaaaa'' \<in> type_eids ''B'' example_db
   \<and> ''1aaaaaaaaaaaaaaa''
       \<notin> dom (map_of [(''1aaaaaaaaaaaaaaa'', [(''A'', ''paaaaaaaaaaaaaaa'')]),
                       (''2aaaaaaaaaaaaaaa'', [(''A'', ''raaaaaaaaaaaaaaa'')])] |` {''2aaaaaaaaaaaaaaa''})"
proof -
  let ?system = "\<lparr>include_components = [(''a'', ''A'')], exclude_components = [''B'']\<rparr>"
  let ?m = "map_of [(''1aaaaaaaaaaaaaaa'', [(''A'', ''paaaaaaaaaaaaaaa'')]),
                    (''2aaaaaaaaaaaaaaa'', [(''A'', ''raaaaaaaaaaaaaaa'')])] |` {''2aaaaaaaaaaaaaaa''}"
  have r: "run ?system example_db = Inr ?m" by (simp add: run_eval)
  have a: "''1aaaaaaaaaaaaaaa'' \<in> type_eids ''A'' example_db" by (simp add: type_eids_eval run_eval)
  have b: "''1aaaaaaaaaaaaaaa'' \<in> type_eids ''B'' example_db" by (simp add: type_eids_eval run_eval)
  have "\<forall>t \<in> set (exclude_components ?system). \<forall>eid \<in> type_eids t example_db. eid \<notin> dom ?m"
    using run_excludes [OF r] by blast
  then have "''1aaaaaaaaaaaaaaa'' \<notin> dom ?m" using b by simp
  then show ?thesis using r a b by blast
qed

subsection \<open>\<^verbatim>\<open>count_matches\<close> and \<^verbatim>\<open>delete_entity\<close>\<close>

text \<open>
  Claim C4. \<^verbatim>\<open>count_matches\<close> should return the number of entities that \<^verbatim>\<open>run\<close>
  would call the system on, as the docstring of the base class says. The method of
  \<^verbatim>\<open>EntityDB_GCS\<close> only calls the method of the base class, which raises
  \<^verbatim>\<open>NotImplementedError\<close>: for every system and every store it returns no count.
\<close>

theorem count_matches_not_implemented:
  "count_matches system_func s = (Inl NotImplementedError, s)"
  by (simp add: count_matches_def EntityDB_count_matches_def)

text \<open>
  Claim C7. \<^verbatim>\<open>delete_entity\<close> on an entity without identifier raises the exception
  \<^verbatim>\<open>Entity has not been saved yet\<close> (the specification's UnsavedEntityError) before
  anything is written: the store, with its index blobs and field blobs, is as it was.
\<close>

theorem delete_entity_unsaved:
  "uid e = None \<Longrightarrow> delete_entity e s = (Inl (Exception ''Entity has not been saved yet''), s)"
  by (simp add: delete_entity_def)

theorem delete_entity_unsaved_witness:
  "uid new_entity_AB = None
   \<and> delete_entity new_entity_AB example_db
       = (Inl (Exception ''Entity has not been saved yet''), example_db)"
  using delete_entity_unsaved [of new_entity_AB example_db] by (simp add: new_entity_AB_def)

subsection \<open>\<^verbatim>\<open>_create_component_from_data\<close>: what reaches the constructor\<close>

lemma update_fresh_key: "k \<notin> fst ` set al \<Longrightarrow> AList.update k v al = al @ [(k, v)]"
  by (induction al) auto

lemma fold_component_values:
  "distinct (map fst acc @ map fst component_data) \<Longrightarrow>
     fold (\<lambda>(varname, v) values.
             if varname \<notin> set [PRIMARY_KEY, ENTITY_REFERENCE]
             then AList.update varname v values else values) component_data acc
     = acc @ filter (\<lambda>(varname, v). varname \<noteq> PRIMARY_KEY \<and> varname \<noteq> ENTITY_REFERENCE) component_data"
proof (induction component_data arbitrary: acc)
  case Nil
  show ?case by simp
next
  case (Cons p rest)
  obtain k v where p: "p = (k, v)" by (cases p)
  have fresh: "k \<notin> fst ` set acc" using Cons.prems p by auto
  show ?case
  proof (cases "k = PRIMARY_KEY \<or> k = ENTITY_REFERENCE")
    case True
    have "distinct (map fst acc @ map fst rest)" using Cons.prems by simp
    then show ?thesis using Cons.IH [of acc] True p by auto
  next
    case False
    have "distinct (map fst (acc @ [(k, v)]) @ map fst rest)" using Cons.prems p by auto
    then show ?thesis using Cons.IH [of "acc @ [(k, v)]"] False p fresh
      by (simp add: update_fresh_key)
  qed
qed

text \<open>
  Claim C9, as amended. \<^verbatim>\<open>_create_component_from_data\<close> drops exactly the two
  fields named \<^verbatim>\<open>_uid\<close> (the primary key) and \<^verbatim>\<open>_entity\<close> (the back-reference):
  they never reach the constructor, and every other fetched field reaches it with its
  value, in the order fetched, whether the component type declares it or not.
\<close>

theorem create_component_strips_two_names:
  assumes "distinct (map fst component_data)"
  shows "create_component_from_data component_type component_data
         = component_type (filter (\<lambda>(varname, v). varname \<noteq> ''_uid'' \<and> varname \<noteq> ''_entity'')
                             component_data)"
  using fold_component_values [of "[]" component_data] assms
  by (simp add: create_component_from_data_def component_values_def PRIMARY_KEY_def ENTITY_REFERENCE_def)

theorem create_component_strips_two_names_witness:
  "distinct (map fst [(''_uid'', ''paaaaaaaaaaaaaaa''), (''x'', ''1''), (''_entity'', ''1aaaaaaaaaaaaaaa''), (''junk'', ''2'')])
   \<and> create_component_from_data id
        [(''_uid'', ''paaaaaaaaaaaaaaa''), (''x'', ''1''), (''_entity'', ''1aaaaaaaaaaaaaaa''), (''junk'', ''2'')]
      = [(''x'', ''1''), (''junk'', ''2'')]"
  using create_component_strips_two_names
    [of "[(''_uid'', ''paaaaaaaaaaaaaaa''), (''x'', ''1''), (''_entity'', ''1aaaaaaaaaaaaaaa''), (''junk'', ''2'')]" id]
  by simp

text \<open>
  Claim C9 as stated says that a field outside the declared fields of the type is
  discarded. For a type that declares the one field \<^verbatim>\<open>x\<close>, a fetched field
  \<^verbatim>\<open>junk\<close> is passed to the constructor all the same.
\<close>

theorem undeclared_field_reaches_constructor:
  "create_component_from_data id [(''_uid'', ''paaaaaaaaaaaaaaa''), (''x'', ''1''), (''junk'', ''2'')]
     = [(''x'', ''1''), (''junk'', ''2'')]
   \<and> \<not> fst ` set (component_values [(''_uid'', ''paaaaaaaaaaaaaaa''), (''x'', ''1''), (''junk'', ''2'')])
        \<subseteq> set [''x'']"
  by (simp add: create_component_from_data_def component_values_def PRIMARY_KEY_def ENTITY_REFERENCE_def)

subsection \<open>\<^verbatim>\<open>update_entity\<close> writes the fields of the loaded components only\<close>

lemma map_of_fold_update:
  "map_of (fold (\<lambda>(n, p). AList.update n p) ws b) = map_of b ++ map_of (rev ws)"
proof (induction ws arbitrary: b)
  case Nil
  show ?case by simp
next
  case (Cons w ws)
  obtain n p where w: "w = (n, p)" by (cases w)
  have "map_of (fold (\<lambda>(n, p). AList.update n p) (w # ws) b)
        = map_of (AList.update n p b) ++ map_of (rev ws)"
    using Cons.IH [of "AList.update n p b"] w by simp
  also have "\<dots> = (map_of b ++ map_of [(n, p)]) ++ map_of (rev ws)"
    by (simp add: update_conv')
  also have "\<dots> = map_of b ++ map_of (rev (w # ws))"
    using w by (simp only: map_add_assoc rev.simps map_of_append)
  finally show ?case .
qed

lemma keys_fold_update:
  "fst ` set (fold (\<lambda>(n, p). AList.update n p) ws b) = fst ` set b \<union> fst ` set ws"
proof -
  have "dom (map_of (fold (\<lambda>(n, p). AList.update n p) ws b)) = dom (map_of b) \<union> dom (map_of (rev ws))"
    by (simp add: map_of_fold_update Un_commute)
  then show ?thesis by (simp add: dom_map_of_conv_image_fst)
qed

lemma map_of_fold_update_frame:
  "n \<notin> fst ` set ws \<Longrightarrow> map_of (fold (\<lambda>(n, p). AList.update n p) ws b) n = map_of b n"
proof -
  assume "n \<notin> fst ` set ws"
  then have "map_of (rev ws) n = None" by (simp add: map_of_eq_None_iff)
  then show ?thesis by (simp add: map_of_fold_update map_add_def)
qed

lemma map_of_fold_update_written:
  assumes "n \<in> fst ` set ws"
  shows "\<exists>p. (n, p) \<in> set ws \<and> map_of (fold (\<lambda>(n, p). AList.update n p) ws b) n = Some p"
proof -
  from assms have "n \<in> fst ` set (rev ws)" by simp
  then obtain p where p: "map_of (rev ws) n = Some p"
    by (metis not_None_eq map_of_eq_None_iff)
  then have "(n, p) \<in> set ws" using map_of_SomeD by fastforce
  then show ?thesis using p by (auto simp: map_of_fold_update map_add_def)
qed

lemma create_data_blob_bucket:
  "create_data_blob serialize cid varname data s
     = s\<lparr>bucket := AList.update (data_blob_name (format_uid cid) varname) (serialize data) (bucket s)\<rparr>"
  by (simp add: create_data_blob_def split: prod.split)

lemma write_variables_fold:
  "write_variables serialize cid vars s
     = s\<lparr>bucket := fold (\<lambda>(n, p). AList.update n p)
                      (map (\<lambda>(varname, data). (data_blob_name (format_uid cid) varname, serialize data)) vars)
                      (bucket s)\<rparr>"
  unfolding write_variables_def
proof (induction vars arbitrary: s)
  case Nil
  show ?case by simp
next
  case (Cons p vars)
  obtain varname data where p: "p = (varname, data)" by (cases p)
  show ?case using Cons.IH [of "create_data_blob serialize cid varname data s"] p
    by (simp add: create_data_blob_bucket)
qed

lemma write_variables_field_writes:
  "write_variables serialize (c_uid c) (get_variables_of c) s
     = s\<lparr>bucket := fold (\<lambda>(n, p). AList.update n p) (field_writes serialize c) (bucket s)\<rparr>"
  by (simp add: write_variables_fold field_writes_def)

lemma update_entity_fold:
  "update_entity serialize e s
     = s\<lparr>bucket := fold (\<lambda>(n, p). AList.update n p)
                      (concat (map (field_writes serialize) (get_components e))) (bucket s)\<rparr>"
proof -
  have "fold (\<lambda>component. write_variables serialize (c_uid component) (get_variables_of component)) cs s
        = s\<lparr>bucket := fold (\<lambda>(n, p). AList.update n p)
                      (concat (map (field_writes serialize) cs)) (bucket s)\<rparr>" for cs
  proof (induction cs arbitrary: s)
    case Nil
    show ?case by simp
  next
    case (Cons c cs)
    show ?case
      using Cons.IH [of "write_variables serialize (c_uid c) (get_variables_of c) s"]
      by (simp add: write_variables_field_writes)
  qed
  then show ?thesis by (simp add: update_entity_def)
qed

lemma fst_field_writes: "fst ` set (field_writes serialize c) = field_blob_names c"
  by (force simp: field_writes_def field_blob_names_def)

lemma fst_all_field_writes:
  "fst ` set (concat (map (field_writes serialize) cs)) = (\<Union>c \<in> set cs. field_blob_names c)"
  by (induction cs) (simp_all add: image_Un fst_field_writes)


lemma data_blob_name_inject:
  assumes "CHR ''/'' \<notin> set c1" "CHR ''/'' \<notin> set c2"
    and "data_blob_name c1 v1 = data_blob_name c2 v2"
  shows "c1 = c2 \<and> v1 = v2"
proof -
  have "split_str (CHR ''/'') (c1 @ CHR ''/'' # v1) = split_str (CHR ''/'') (c2 @ CHR ''/'' # v2)"
    using assms(3) by (simp add: data_blob_name_def)
  then have "c1 # split_str (CHR ''/'') v1 = c2 # split_str (CHR ''/'') v2"
    using assms(1,2) by (simp add: split_str_first)
  then have c: "c1 = c2" by simp
  then show ?thesis using assms(3) by (simp add: data_blob_name_def)
qed

lemma field_blob_name_hd: "n \<in> field_blob_names c \<Longrightarrow> hd n = CHR ''d''"
  by (auto simp: field_blob_names_def data_blob_name_def DATA_FOLDER_def)

lemma index_names_not_field_names:
  "entity_blob_name eid component_name cid \<notin> field_blob_names c"
  "component_blob_name component_name eid cid \<notin> field_blob_names c"
proof -
  have "hd (entity_blob_name eid component_name cid) = CHR ''e''"
    by (simp add: entity_blob_name_def ENTITY_FOLDER_def)
  then show "entity_blob_name eid component_name cid \<notin> field_blob_names c"
    using field_blob_name_hd [of "entity_blob_name eid component_name cid" c] by auto
  have "hd (component_blob_name component_name eid cid) = CHR ''c''"
    by (simp add: component_blob_name_def COMPONENT_FOLDER_def)
  then show "component_blob_name component_name eid cid \<notin> field_blob_names c"
    using field_blob_name_hd [of "component_blob_name component_name eid cid" c] by auto
qed

text \<open>
  Claim C6, as amended. \<^verbatim>\<open>update_entity\<close> uploads the field blobs
  \<^verbatim>\<open>dat/{component._uid}/{varname}\<close> of the loaded components of the entity, under
  the identifiers the components already have, and nothing else. Every other blob keeps its
  payload: the forward-index and type-index blobs of all components, and the field blobs of
  every component whose identifier is not that of a loaded component. Each uploaded blob
  holds the serialized value of a field of a loaded component; no blob is deleted; no
  identifier is drawn and no class is registered.
\<close>

theorem update_entity_frame:
  fixes e :: "'v entity"
  assumes s': "s' = update_entity serialize e s"
  shows "(\<forall>n. n \<notin> (\<Union>c \<in> set (get_components e). field_blob_names c)
            \<longrightarrow> map_of (bucket s') n = map_of (bucket s) n)
       \<and> (\<forall>c \<in> set (get_components e). \<forall>n \<in> field_blob_names c.
            \<exists>c' \<in> set (get_components e). \<exists>(varname, data) \<in> set (get_variables_of c').
              n = data_blob_name (format_uid (c_uid c')) varname
              \<and> map_of (bucket s') n = Some (serialize data))
       \<and> fst ` set (bucket s') = fst ` set (bucket s) \<union> (\<Union>c \<in> set (get_components e). field_blob_names c)
       \<and> (\<forall>eid component_name cid.
            map_of (bucket s') (entity_blob_name eid component_name cid)
              = map_of (bucket s) (entity_blob_name eid component_name cid)
            \<and> map_of (bucket s') (component_blob_name component_name eid cid)
              = map_of (bucket s) (component_blob_name component_name eid cid))
       \<and> (\<forall>cid varname. CHR ''/'' \<notin> set cid
            \<and> (\<forall>c \<in> set (get_components e).
                  format_uid (c_uid c) \<noteq> cid \<and> CHR ''/'' \<notin> set (format_uid (c_uid c)))
            \<longrightarrow> map_of (bucket s') (data_blob_name cid varname)
                  = map_of (bucket s) (data_blob_name cid varname))
       \<and> component_classes s' = component_classes s \<and> rand s' = rand s \<and> tick s' = tick s"
proof -
  let ?ws = "concat (map (field_writes serialize) (get_components e))"
  let ?names = "\<Union>c \<in> set (get_components e). field_blob_names c"
  have b: "bucket s' = fold (\<lambda>(n, p). AList.update n p) ?ws (bucket s)"
    using s' by (simp add: update_entity_fold)
  have names: "fst ` set ?ws = ?names" by (rule fst_all_field_writes)
  have frame: "map_of (bucket s') n = map_of (bucket s) n" if "n \<notin> ?names" for n
    using that b names map_of_fold_update_frame [of n ?ws "bucket s"] by simp
  have c1: "\<forall>n. n \<notin> ?names \<longrightarrow> map_of (bucket s') n = map_of (bucket s) n"
    using frame by blast
  have c2: "\<forall>c \<in> set (get_components e). \<forall>n \<in> field_blob_names c.
            \<exists>c' \<in> set (get_components e). \<exists>(varname, data) \<in> set (get_variables_of c').
              n = data_blob_name (format_uid (c_uid c')) varname
              \<and> map_of (bucket s') n = Some (serialize data)"
  proof (intro ballI)
    fix c n
    assume "c \<in> set (get_components e)" "n \<in> field_blob_names c"
    then have "n \<in> fst ` set ?ws" using names by blast
    then obtain p where p: "(n, p) \<in> set ?ws" "map_of (bucket s') n = Some p"
      using map_of_fold_update_written [of n ?ws "bucket s"] b by auto
    then obtain c' where c': "c' \<in> set (get_components e)" "(n, p) \<in> set (field_writes serialize c')"
      by auto
    then obtain varname data where v: "(varname, data) \<in> set (get_variables_of c')"
      "n = data_blob_name (format_uid (c_uid c')) varname" "p = serialize data"
      by (auto simp: field_writes_def)
    show "\<exists>c' \<in> set (get_components e). \<exists>(varname, data) \<in> set (get_variables_of c').
              n = data_blob_name (format_uid (c_uid c')) varname
              \<and> map_of (bucket s') n = Some (serialize data)"
    proof (rule bexI [OF _ c'(1)], rule bexI [OF _ v(1)])
      show "case (varname, data) of (varname, data) \<Rightarrow>
              n = data_blob_name (format_uid (c_uid c')) varname
              \<and> map_of (bucket s') n = Some (serialize data)"
        using v(2,3) p(2) by simp
    qed
  qed
  have c3: "fst ` set (bucket s') = fst ` set (bucket s) \<union> ?names"
    using b names by (simp add: keys_fold_update)
  have c4: "\<forall>eid component_name cid.
            map_of (bucket s') (entity_blob_name eid component_name cid)
              = map_of (bucket s) (entity_blob_name eid component_name cid)
            \<and> map_of (bucket s') (component_blob_name component_name eid cid)
              = map_of (bucket s) (component_blob_name component_name eid cid)"
  proof (intro allI conjI)
    fix eid component_name cid
    have "entity_blob_name eid component_name cid \<notin> ?names"
      using index_names_not_field_names(1) by blast
    then show "map_of (bucket s') (entity_blob_name eid component_name cid)
              = map_of (bucket s) (entity_blob_name eid component_name cid)" by (rule frame)
    have "component_blob_name component_name eid cid \<notin> ?names"
      using index_names_not_field_names(2) by blast
    then show "map_of (bucket s') (component_blob_name component_name eid cid)
              = map_of (bucket s) (component_blob_name component_name eid cid)" by (rule frame)
  qed
  have c5: "\<forall>cid varname. CHR ''/'' \<notin> set cid
            \<and> (\<forall>c \<in> set (get_components e).
                  format_uid (c_uid c) \<noteq> cid \<and> CHR ''/'' \<notin> set (format_uid (c_uid c)))
            \<longrightarrow> map_of (bucket s') (data_blob_name cid varname)
                  = map_of (bucket s) (data_blob_name cid varname)"
  proof (intro allI impI, elim conjE)
    fix cid varname
    assume slash: "CHR ''/'' \<notin> set cid"
      and others: "\<forall>c \<in> set (get_components e).
                  format_uid (c_uid c) \<noteq> cid \<and> CHR ''/'' \<notin> set (format_uid (c_uid c))"
    have "data_blob_name cid varname \<notin> ?names"
    proof
      assume "data_blob_name cid varname \<in> ?names"
      then obtain c v where c: "c \<in> set (get_components e)"
        and eq: "data_blob_name cid varname = data_blob_name (format_uid (c_uid c)) v"
        by (auto simp: field_blob_names_def)
      have "CHR ''/'' \<notin> set (format_uid (c_uid c))" using others c by blast
      then have "cid = format_uid (c_uid c)"
        using data_blob_name_inject [OF slash _ eq] by blast
      then show False using others c by blast
    qed
    then show "map_of (bucket s') (data_blob_name cid varname) = map_of (bucket s) (data_blob_name cid varname)"
      by (rule frame)
  qed
  have c6: "component_classes s' = component_classes s" using s' by (simp add: update_entity_fold)
  have c7: "rand s' = rand s" using s' by (simp add: update_entity_fold)
  have c8: "tick s' = tick s" using s' by (simp add: update_entity_fold)
  show ?thesis
    apply (intro conjI)
           apply (fact c1)
          apply (fact c2)
         apply (fact c3)
        apply (fact c4)
       apply (fact c5)
      apply (fact c6)
     apply (fact c7)
    apply (fact c8)
    done
qed


theorem update_entity_frame_witness:
  "''dat/qaaaaaaaaaaaaaaa/dx'' \<notin> (\<Union>c \<in> set (get_components loaded_entity_A). field_blob_names c)
   \<and> map_of (bucket example_db) ''dat/qaaaaaaaaaaaaaaa/dx'' = Some (''2'', ''text/plain'')
   \<and> map_of (bucket (update_entity plain_text loaded_entity_A example_db)) ''dat/qaaaaaaaaaaaaaaa/dx''
       = Some (''2'', ''text/plain'')
   \<and> map_of (bucket example_db) ''dat/paaaaaaaaaaaaaaa/x'' = Some (''1'', ''text/plain'')
   \<and> map_of (bucket (update_entity plain_text loaded_entity_A example_db)) ''dat/paaaaaaaaaaaaaaa/x''
       = Some (''7'', ''text/plain'')"
proof -
  let ?s' = "update_entity plain_text loaded_entity_A example_db"
  let ?names = "\<Union>c \<in> set (get_components loaded_entity_A). field_blob_names c"
  note fr = update_entity_frame [where serialize = plain_text and e = loaded_entity_A and s = example_db, OF refl]
  have names: "?names = {''dat/paaaaaaaaaaaaaaa/x''}"
    by (simp add: loaded_entity_A_def get_components_def get_variables_of_def field_blob_names_def
        data_blob_name_def DATA_FOLDER_def)
  then have out: "''dat/qaaaaaaaaaaaaaaa/dx'' \<notin> ?names" by simp
  have "\<forall>n. n \<notin> ?names \<longrightarrow> map_of (bucket ?s') n = map_of (bucket example_db) n"
    using fr by (rule conjunct1)
  then have same: "map_of (bucket ?s') ''dat/qaaaaaaaaaaaaaaa/dx''
      = map_of (bucket example_db) ''dat/qaaaaaaaaaaaaaaa/dx''"
    using out by blast
  have old_b: "map_of (bucket example_db) ''dat/qaaaaaaaaaaaaaaa/dx'' = Some (''2'', ''text/plain'')"
    by (simp add: example_db_def)
  have old_a: "map_of (bucket example_db) ''dat/paaaaaaaaaaaaaaa/x'' = Some (''1'', ''text/plain'')"
    by (simp add: example_db_def)
  have "\<forall>c \<in> set (get_components loaded_entity_A). \<forall>n \<in> field_blob_names c.
            \<exists>c' \<in> set (get_components loaded_entity_A). \<exists>(varname, data) \<in> set (get_variables_of c').
              n = data_blob_name (format_uid (c_uid c')) varname
              \<and> map_of (bucket ?s') n = Some (plain_text data)"
    using fr by (rule conjunct1 [OF conjunct2])
  then have new_a: "map_of (bucket ?s') ''dat/paaaaaaaaaaaaaaa/x'' = Some (''7'', ''text/plain'')"
    by (simp add: loaded_entity_A_def get_components_def get_variables_of_def field_blob_names_def
        data_blob_name_def DATA_FOLDER_def plain_text_def)
  show ?thesis using out same old_b old_a new_a by simp
qed

subsection \<open>\<^verbatim>\<open>add_entity\<close>\<close>

lemma uid_length_pred:
  "UID_LENGTH - Suc 0
     = Suc (Suc (Suc (Suc (Suc (Suc (Suc (Suc (Suc (Suc (Suc (Suc (Suc (Suc (Suc 0))))))))))))))"
  by (simp add: UID_LENGTH_def)

lemmas add_entity_eval =
  add_entity_def upload_all_def random_eid_def random_cid_def uid_length_pred choice_def digits_def
  ascii_letters_def get_components_def get_variables_of_def register_component_type_def
  create_empty_blob_def create_data_blob_def write_variables_def entity_blob_name_def
  component_blob_name_def data_blob_name_def ENTITY_FOLDER_def COMPONENT_FOLDER_def
  DATA_FOLDER_def zero_draws_def plain_text_def

lemma snd_choice: "snd (choice seq s) = s\<lparr>tick := Suc (tick s)\<rparr>"
  by (simp add: choice_def)

lemma snd_random_id: "snd (random_id n s) = s\<lparr>tick := tick s + n\<rparr>"
proof (induction n arbitrary: s)
  case 0
  show ?case by simp
next
  case (Suc n)
  show ?case using Suc.IH [of "snd (choice (ascii_letters @ digits) s)"]
    by (simp add: split_beta snd_choice)
qed

lemma snd_random_cid: "snd (random_cid s) = s\<lparr>tick := tick s + UID_LENGTH\<rparr>"
  by (simp add: random_cid_def split_beta snd_random_id snd_choice UID_LENGTH_def)

lemma snd_random_eid: "snd (random_eid s) = s\<lparr>tick := tick s + UID_LENGTH\<rparr>"
  by (simp add: random_eid_def split_beta snd_random_id snd_choice UID_LENGTH_def)

lemma random_eid_digit: "hd (fst (random_eid s)) \<in> set digits"
  using choice_in_set [of digits s] by (simp add: random_eid_def split_beta digits_def)

lemma random_cid_letter: "hd (fst (random_cid s)) \<in> set ascii_letters"
  using choice_in_set [of ascii_letters s] by (simp add: random_cid_def split_beta ascii_letters_def)



lemma fst_choice_cong:
  "rand s = rand s' \<Longrightarrow> tick s = tick s' \<Longrightarrow> fst (choice seq s) = fst (choice seq s')"
  by (simp add: choice_def)

lemma fst_random_id_cong:
  "rand s = rand s' \<Longrightarrow> tick s = tick s' \<Longrightarrow> fst (random_id n s) = fst (random_id n s')"
proof (induction n arbitrary: s s')
  case 0
  show ?case by simp
next
  case (Suc n)
  have "fst (random_id n (snd (choice (ascii_letters @ digits) s)))
        = fst (random_id n (snd (choice (ascii_letters @ digits) s')))"
    using Suc.prems by (intro Suc.IH) (simp_all add: snd_choice)
  then show ?case using fst_choice_cong [OF Suc.prems] by (simp add: split_beta)
qed

lemma fst_random_cid_cong:
  "rand s = rand s' \<Longrightarrow> tick s = tick s' \<Longrightarrow> fst (random_cid s) = fst (random_cid s')"
proof -
  assume r: "rand s = rand s'" and t: "tick s = tick s'"
  have "fst (random_id (UID_LENGTH - 1) (snd (choice ascii_letters s)))
        = fst (random_id (UID_LENGTH - 1) (snd (choice ascii_letters s')))"
    using r t by (intro fst_random_id_cong) (simp_all add: snd_choice)
  then show ?thesis using fst_choice_cong [OF r t] by (simp add: random_cid_def split_beta)
qed

lemma upload_all_append: "upload_all (ws @ ws') b = upload_all ws' (upload_all ws b)"
  by (simp add: upload_all_def)

lemma write_variables_upload_all:
  "write_variables serialize (c_uid c) (get_variables_of c) s
     = s\<lparr>bucket := upload_all (field_writes serialize c) (bucket s)\<rparr>"
  by (simp add: write_variables_field_writes upload_all_def)

lemma add_components_closed_form:
  fixes cs :: "'v component list"
  assumes "rand s = rand s0" "tick s = tick s0 + UID_LENGTH * n"
  shows "add_components serialize e_uid cs s
     = (map (\<lambda>(k, c). c\<lparr>c_uid := Some (fst (random_cid (s0\<lparr>tick := tick s0 + UID_LENGTH * k\<rparr>)))\<rparr>)
          (enumerate n cs),
        map (\<lambda>k. fst (random_cid (s0\<lparr>tick := tick s0 + UID_LENGTH * k\<rparr>))) [n..<n + length cs],
        s\<lparr>bucket := upload_all
                      (concat (map (component_writes serialize (format_uid e_uid))
                         (map (\<lambda>(k, c). c\<lparr>c_uid := Some (fst (random_cid (s0\<lparr>tick := tick s0 + UID_LENGTH * k\<rparr>)))\<rparr>)
                            (enumerate n cs))))
                      (bucket s),
          component_classes := fold (\<lambda>c. List.insert (type_name c)) cs (component_classes s),
          tick := tick s + UID_LENGTH * length cs\<rparr>)"
  using assms
proof (induction cs arbitrary: s n)
  case Nil
  show ?case by (simp add: upload_all_def)
next
  case (Cons c rest)
  let ?G = "\<lambda>k. fst (random_cid (s0\<lparr>tick := tick s0 + UID_LENGTH * k\<rparr>))"
  define s1 where "s1 = register_component_type (type_name c) s"
  define cid where "cid = fst (random_cid s1)"
  define s2 where "s2 = snd (random_cid s1)"
  define c' where "c' = c\<lparr>c_uid := Some cid\<rparr>"
  define s3 where "s3 = create_empty_blob (entity_blob_name (format_uid e_uid) (type_name c) cid) s2"
  define s4 where "s4 = create_empty_blob (component_blob_name (type_name c) (format_uid e_uid) cid) s3"
  define s5 where "s5 = write_variables serialize (c_uid c') (get_variables_of c') s4"
  have cid: "cid = ?G n"
    unfolding cid_def using Cons.prems
    by (intro fst_random_cid_cong) (simp_all add: s1_def register_component_type_def)
  have "s5 = s4\<lparr>bucket := upload_all (field_writes serialize c') (bucket s4)\<rparr>"
    unfolding s5_def by (rule write_variables_upload_all)
  then have s5: "s5 = s\<lparr>bucket := upload_all (component_writes serialize (format_uid e_uid) c') (bucket s),
                    component_classes := List.insert (type_name c) (component_classes s),
                    tick := tick s + UID_LENGTH\<rparr>"
    by (simp add: s4_def s3_def s2_def s1_def create_empty_blob_def
        snd_random_cid register_component_type_def component_writes_def upload_all_def c'_def)
  have r5: "rand s5 = rand s0" using Cons.prems by (simp add: s5)
  have t5: "tick s5 = tick s0 + UID_LENGTH * Suc n" using Cons.prems by (simp add: s5)
  note ih = Cons.IH [OF r5 t5]
  have step: "add_components serialize e_uid (c # rest) s
      = (c' # fst (add_components serialize e_uid rest s5),
         cid # fst (snd (add_components serialize e_uid rest s5)),
         snd (snd (add_components serialize e_uid rest s5)))"
    by (simp add: Let_def split_beta s1_def cid_def s2_def c'_def s3_def s4_def s5_def)
  have idx: "[n..<n + length (c # rest)] = n # [Suc n..<Suc n + length rest]"
  proof -
    have "n < n + Suc (length rest)" by simp
    then have "[n..<n + Suc (length rest)] = n # [Suc n..<n + Suc (length rest)]"
      by (rule upt_conv_Cons)
    then show ?thesis by (simp only: length_Cons add_Suc add_Suc_right)
  qed
  show ?case
    unfolding step ih idx
    by (simp add: c'_def cid s5 upload_all_append)
qed

lemma add_entity_closed_form:
  fixes e :: "'v entity"
  shows "add_entity serialize e s
     = Inr (fst (random_eid s),
            e\<lparr>uid := Some (fst (random_eid s)), attached := True,
              components := with_drawn_cids s (components e)\<rparr>,
            s\<lparr>bucket := upload_all
                          (concat (map (component_writes serialize (fst (random_eid s)))
                                     (with_drawn_cids s (components e))))
                          (bucket s),
              component_classes := fold (\<lambda>c. List.insert (type_name c)) (components e) (component_classes s),
              tick := tick s + UID_LENGTH * Suc (length (components e))\<rparr>)"
proof -
  let ?s1 = "s\<lparr>tick := tick s + UID_LENGTH\<rparr>"
  have r: "rand ?s1 = rand s" and t: "tick ?s1 = tick s + UID_LENGTH * Suc 0"
    by simp_all
  have cids: "(\<lambda>(k, c). c\<lparr>c_uid := Some (fst (random_cid (s\<lparr>tick := tick s + UID_LENGTH * k\<rparr>)))\<rparr>)
               \<circ> apfst Suc
             = (\<lambda>(k, c :: 'v component). c\<lparr>c_uid := Some (drawn_cid s k)\<rparr>)"
    by (auto simp: drawn_cid_def fun_eq_iff)
  have wd: "map (\<lambda>(k, c). c\<lparr>c_uid := Some (fst (random_cid (s\<lparr>tick := tick s + UID_LENGTH * k\<rparr>)))\<rparr>)
              (enumerate (Suc 0) (components e))
            = with_drawn_cids s (components e)"
    unfolding with_drawn_cids_def enumerate_Suc_eq map_map cids ..
  show ?thesis
    unfolding add_entity_def
    by (simp add: split_beta Let_def get_components_def
        add_components_closed_form [OF r t] wd snd_random_eid)
qed


lemma in_concat_map: "c \<in> set cs \<Longrightarrow> x \<in> set (f c) \<Longrightarrow> x \<in> set (concat (map f cs))"
  by (induction cs) auto

lemma keys_upload_all: "fst ` set (upload_all ws b) = fst ` set b \<union> fst ` set ws"
  by (simp add: upload_all_def keys_fold_update)

lemma map_of_upload_all_distinct:
  assumes "distinct (map fst ws)" "(n, payload) \<in> set ws"
  shows "map_of (upload_all ws b) n = Some payload"
proof -
  have "distinct (map fst (rev ws))" using assms(1) by (simp add: rev_map [symmetric])
  moreover have "(n, payload) \<in> set (rev ws)" using assms(2) by simp
  ultimately have "map_of (rev ws) n = Some payload" by (rule map_of_is_SomeI)
  then show ?thesis by (simp add: upload_all_def map_of_fold_update map_add_def)
qed

lemma drawn_cid_shape: "length (drawn_cid s k) = 16 \<and> hd (drawn_cid s k) \<in> set ascii_letters"
  using random_cid_length [of "s\<lparr>tick := tick s + UID_LENGTH * Suc k\<rparr>"]
    random_cid_letter [of "s\<lparr>tick := tick s + UID_LENGTH * Suc k\<rparr>"]
  by (simp add: drawn_cid_def UID_LENGTH_def)

text \<open>
  Claim C8, as amended. \<^verbatim>\<open>add_entity\<close> returns, for every entity and store: the
  identifier it returns and leaves on the entity is the one \<^verbatim>\<open>_random_eid\<close> draws
  (16 characters, the first a digit); component number \<open>k\<close> keeps its type and fields
  and receives the identifier \<^verbatim>\<open>_random_cid\<close> draws for it (16 characters, the first
  a letter); the blobs of the store are those it had, with the uploads of
  \<open>component_writes\<close> applied for each component in turn: the forward-index blob, the
  type-index blob and one field blob per declared field with its serialized value. All their
  names are in the store afterwards and no earlier blob is removed; when the uploaded names
  differ from one another, each blob holds exactly what was uploaded to it. The identifiers
  are drawn, not compared with those in the store.
\<close>

theorem add_entity_writes:
  fixes e :: "'v entity"
  shows "\<exists>new_eid e' s'.
       add_entity serialize e s = Inr (new_eid, e', s')
     \<and> new_eid = fst (random_eid s) \<and> length new_eid = 16 \<and> hd new_eid \<in> set digits
     \<and> e' = e\<lparr>uid := Some new_eid, attached := True, components := with_drawn_cids s (components e)\<rparr>
     \<and> (\<forall>k. length (drawn_cid s k) = 16 \<and> hd (drawn_cid s k) \<in> set ascii_letters)
     \<and> bucket s' = upload_all (concat (map (component_writes serialize new_eid) (components e'))) (bucket s)
     \<and> component_classes s'
         = fold (\<lambda>c. List.insert (type_name c)) (components e) (component_classes s)
     \<and> rand s' = rand s
     \<and> tick s' = tick s + UID_LENGTH * Suc (length (components e))
     \<and> fst ` set (bucket s) \<subseteq> fst ` set (bucket s')
     \<and> (\<forall>c \<in> set (components e'). \<forall>(n, payload) \<in> set (component_writes serialize new_eid c).
            n \<in> fst ` set (bucket s'))
     \<and> (distinct (map fst (concat (map (component_writes serialize new_eid) (components e'))))
          \<longrightarrow> (\<forall>c \<in> set (components e'). \<forall>(n, payload) \<in> set (component_writes serialize new_eid c).
                 map_of (bucket s') n = Some payload))"
proof -
  define new_eid where "new_eid = fst (random_eid s)"
  define e' where "e' = e\<lparr>uid := Some new_eid, attached := True,
                           components := with_drawn_cids s (components e)\<rparr>"
  define ws where "ws = concat (map (component_writes serialize new_eid) (components e'))"
  define s' where "s' = s\<lparr>bucket := upload_all ws (bucket s),
      component_classes := fold (\<lambda>c. List.insert (type_name c)) (components e) (component_classes s),
      tick := tick s + UID_LENGTH * Suc (length (components e))\<rparr>"
  have c0: "add_entity serialize e s = Inr (new_eid, e', s')"
    by (simp add: add_entity_closed_form new_eid_def e'_def s'_def ws_def)
  have c1: "new_eid = fst (random_eid s)" by (simp add: new_eid_def)
  have c2: "length new_eid = 16" using random_eid_length [of s] by (simp add: new_eid_def UID_LENGTH_def)
  have c3: "hd new_eid \<in> set digits" using random_eid_digit [of s] by (simp add: new_eid_def)
  have c4: "e' = e\<lparr>uid := Some new_eid, attached := True, components := with_drawn_cids s (components e)\<rparr>"
    by (simp add: e'_def)
  have c5: "\<forall>k. length (drawn_cid s k) = 16 \<and> hd (drawn_cid s k) \<in> set ascii_letters"
    using drawn_cid_shape by blast
  have c6: "bucket s' = upload_all (concat (map (component_writes serialize new_eid) (components e'))) (bucket s)"
    by (simp add: s'_def ws_def)
  have c7: "component_classes s'
         = fold (\<lambda>c. List.insert (type_name c)) (components e) (component_classes s)"
    by (simp add: s'_def)
  have c8: "rand s' = rand s" by (simp add: s'_def)
  have c9: "tick s' = tick s + UID_LENGTH * Suc (length (components e))" by (simp add: s'_def)
  have keys: "fst ` set (bucket s') = fst ` set (bucket s) \<union> fst ` set ws"
    by (simp add: s'_def keys_upload_all)
  have c10: "fst ` set (bucket s) \<subseteq> fst ` set (bucket s')" using keys by blast
  have c11: "\<forall>c \<in> set (components e'). \<forall>(n, payload) \<in> set (component_writes serialize new_eid c).
            n \<in> fst ` set (bucket s')"
  proof (intro ballI, clarify)
    fix c n a b
    assume "c \<in> set (components e')" "(n, a, b) \<in> set (component_writes serialize new_eid c)"
    then have "(n, a, b) \<in> set ws" unfolding ws_def by (rule in_concat_map)
    then have "fst (n, a, b) \<in> fst ` set ws" by (rule imageI)
    then show "n \<in> fst ` set (bucket s')" using keys by simp
  qed
  have c12: "distinct (map fst (concat (map (component_writes serialize new_eid) (components e'))))
          \<longrightarrow> (\<forall>c \<in> set (components e'). \<forall>(n, payload) \<in> set (component_writes serialize new_eid c).
                 map_of (bucket s') n = Some payload)"
  proof (intro impI ballI, clarify)
    fix c n a b
    assume d: "distinct (map fst (concat (map (component_writes serialize new_eid) (components e'))))"
      and c: "c \<in> set (components e')"
      and m: "(n, a, b) \<in> set (component_writes serialize new_eid c)"
    have "(n, a, b) \<in> set ws" unfolding ws_def using c m by (rule in_concat_map)
    moreover have "distinct (map fst ws)" using d unfolding ws_def .
    ultimately have "map_of (upload_all ws (bucket s)) n = Some (a, b)"
      by (intro map_of_upload_all_distinct)
    then show "map_of (bucket s') n = Some (a, b)" by (simp add: s'_def)
  qed
  show ?thesis
    apply (rule exI [of _ new_eid], rule exI [of _ e'], rule exI [of _ s'])
    apply (intro conjI)
                apply (fact c0)
               apply (fact c1)
              apply (fact c2)
             apply (fact c3)
            apply (fact c4)
           apply (fact c5)
          apply (fact c6)
         apply (fact c7)
        apply (fact c8)
       apply (fact c9)
      apply (fact c10)
     apply (fact c11)
    apply (fact c12)
    done
qed

text \<open>
  Claim C5, as amended. \<^verbatim>\<open>add_entity\<close> does not look at the identifier an entity
  already carries and raises nothing: on an entity with an identifier it returns what it
  returns on the same entity without one. The old identifier is replaced by the one
  \<^verbatim>\<open>_random_eid\<close> draws, which is returned; the components receive newly drawn
  identifiers; and the forward-index, type-index and field blobs of every component are
  uploaded under the new identifiers.
\<close>

theorem add_entity_ignores_identifier:
  fixes e :: "'v entity"
  shows "add_entity serialize (e\<lparr>uid := Some old_eid\<rparr>) s = add_entity serialize (e\<lparr>uid := None\<rparr>) s
   \<and> add_entity serialize (e\<lparr>uid := Some old_eid\<rparr>) s
     = Inr (fst (random_eid s),
            e\<lparr>uid := Some (fst (random_eid s)), attached := True,
              components := with_drawn_cids s (components e)\<rparr>,
            s\<lparr>bucket := upload_all
                          (concat (map (component_writes serialize (fst (random_eid s)))
                                     (with_drawn_cids s (components e))))
                          (bucket s),
              component_classes := fold (\<lambda>c. List.insert (type_name c)) (components e) (component_classes s),
              tick := tick s + UID_LENGTH * Suc (length (components e))\<rparr>)"
  by (simp add: add_entity_closed_form)


lemma add_entity_AB_counting_db:
  "add_entity plain_text new_entity_AB counting_db
     = Inr (''0bcdefghijklmnop'',
        \<lparr>uid = Some ''0bcdefghijklmnop'', attached = True,
         components = [\<lparr>type_name = ''A'', c_uid = Some ''qrstuvwxyzABCDEF'', variables = [(''x'', ''1'')]\<rparr>,
                       \<lparr>type_name = ''B'', c_uid = Some ''GHIJKLMNOPQRSTUV'', variables = [(''dx'', ''2'')]\<rparr>],
         unloaded_components = []\<rparr>,
        \<lparr>bucket = [(''ent/0bcdefghijklmnop/A-qrstuvwxyzABCDEF'', [], ''text/plain''),
                   (''cmp/A/0bcdefghijklmnop-qrstuvwxyzABCDEF'', [], ''text/plain''),
                   (''dat/qrstuvwxyzABCDEF/x'', ''1'', ''text/plain''),
                   (''ent/0bcdefghijklmnop/B-GHIJKLMNOPQRSTUV'', [], ''text/plain''),
                   (''cmp/B/0bcdefghijklmnop-GHIJKLMNOPQRSTUV'', [], ''text/plain''),
                   (''dat/GHIJKLMNOPQRSTUV/dx'', ''2'', ''text/plain'')],
         component_classes = [''B'', ''A''], rand = counting_draws, tick = 48\<rparr>)"
  by (simp add: add_entity_eval counting_db_def counting_draws_def new_entity_AB_def component_A_def
      component_B_def)

theorem add_entity_writes_witness:
  "add_entity plain_text new_entity_AB counting_db
     = Inr (''0bcdefghijklmnop'',
        \<lparr>uid = Some ''0bcdefghijklmnop'', attached = True,
         components = [\<lparr>type_name = ''A'', c_uid = Some ''qrstuvwxyzABCDEF'', variables = [(''x'', ''1'')]\<rparr>,
                       \<lparr>type_name = ''B'', c_uid = Some ''GHIJKLMNOPQRSTUV'', variables = [(''dx'', ''2'')]\<rparr>],
         unloaded_components = []\<rparr>,
        \<lparr>bucket = [(''ent/0bcdefghijklmnop/A-qrstuvwxyzABCDEF'', [], ''text/plain''),
                   (''cmp/A/0bcdefghijklmnop-qrstuvwxyzABCDEF'', [], ''text/plain''),
                   (''dat/qrstuvwxyzABCDEF/x'', ''1'', ''text/plain''),
                   (''ent/0bcdefghijklmnop/B-GHIJKLMNOPQRSTUV'', [], ''text/plain''),
                   (''cmp/B/0bcdefghijklmnop-GHIJKLMNOPQRSTUV'', [], ''text/plain''),
                   (''dat/GHIJKLMNOPQRSTUV/dx'', ''2'', ''text/plain'')],
         component_classes = [''B'', ''A''], rand = counting_draws, tick = 48\<rparr>)
   \<and> distinct (map fst (concat (map (component_writes plain_text ''0bcdefghijklmnop'')
        [\<lparr>type_name = ''A'', c_uid = Some ''qrstuvwxyzABCDEF'', variables = [(''x'', ''1'')]\<rparr>,
         \<lparr>type_name = ''B'', c_uid = Some ''GHIJKLMNOPQRSTUV'', variables = [(''dx'', ''2'')]\<rparr>])))
   \<and> map_of [(''ent/0bcdefghijklmnop/A-qrstuvwxyzABCDEF'', [], ''text/plain''),
              (''cmp/A/0bcdefghijklmnop-qrstuvwxyzABCDEF'', [], ''text/plain''),
              (''dat/qrstuvwxyzABCDEF/x'', ''1'', ''text/plain''),
              (''ent/0bcdefghijklmnop/B-GHIJKLMNOPQRSTUV'', [], ''text/plain''),
              (''cmp/B/0bcdefghijklmnop-GHIJKLMNOPQRSTUV'', [], ''text/plain''),
              (''dat/GHIJKLMNOPQRSTUV/dx'', ''2'', ''text/plain'')]
        (data_blob_name ''GHIJKLMNOPQRSTUV'' ''dx'') = Some (''2'', ''text/plain'')"
proof -
  let ?A = "\<lparr>type_name = ''A'', c_uid = Some ''qrstuvwxyzABCDEF'', variables = [(''x'', ''1'')]\<rparr>"
  let ?B = "\<lparr>type_name = ''B'', c_uid = Some ''GHIJKLMNOPQRSTUV'', variables = [(''dx'', ''2'')]\<rparr>"
  let ?blobs = "[(''ent/0bcdefghijklmnop/A-qrstuvwxyzABCDEF'', [], ''text/plain''),
                   (''cmp/A/0bcdefghijklmnop-qrstuvwxyzABCDEF'', [], ''text/plain''),
                   (''dat/qrstuvwxyzABCDEF/x'', ''1'', ''text/plain''),
                   (''ent/0bcdefghijklmnop/B-GHIJKLMNOPQRSTUV'', [], ''text/plain''),
                   (''cmp/B/0bcdefghijklmnop-GHIJKLMNOPQRSTUV'', [], ''text/plain''),
                   (''dat/GHIJKLMNOPQRSTUV/dx'', ''2'', ''text/plain'')]"
  note ev = add_entity_AB_counting_db
  obtain new_eid e' s'
    where r: "add_entity plain_text new_entity_AB counting_db = Inr (new_eid, e', s')"
      and all: "distinct (map fst (concat (map (component_writes plain_text new_eid) (components e'))))
          \<longrightarrow> (\<forall>c \<in> set (components e'). \<forall>(n, payload) \<in> set (component_writes plain_text new_eid c).
                 map_of (bucket s') n = Some payload)"
    using add_entity_writes [of plain_text new_entity_AB counting_db] by blast
  have eid: "new_eid = ''0bcdefghijklmnop''"
    and e': "components e' = [?A, ?B]"
    and s': "bucket s' = ?blobs"
    using r unfolding ev by auto
  have d: "distinct (map fst (concat (map (component_writes plain_text ''0bcdefghijklmnop'') [?A, ?B])))"
    by (simp add: component_writes_def field_writes_def get_variables_of_def entity_blob_name_def
        component_blob_name_def data_blob_name_def ENTITY_FOLDER_def COMPONENT_FOLDER_def DATA_FOLDER_def)
  have "\<forall>c \<in> set [?A, ?B]. \<forall>(n, payload) \<in> set (component_writes plain_text ''0bcdefghijklmnop'' c).
                 map_of ?blobs n = Some payload"
    using all d unfolding eid e' s' by blast
  then have "\<forall>(n, payload) \<in> set (component_writes plain_text ''0bcdefghijklmnop'' ?B).
                 map_of ?blobs n = Some payload"
    by simp
  then have f: "map_of ?blobs (data_blob_name ''GHIJKLMNOPQRSTUV'' ''dx'') = Some (''2'', ''text/plain'')"
    by (simp add: component_writes_def field_writes_def get_variables_of_def plain_text_def)
  show ?thesis using ev d f by (intro conjI)
qed


text \<open>
  Claim C8 as stated calls the identifiers fresh. Nothing in \<^verbatim>\<open>add_entity\<close> compares
  a drawn identifier with those in use: when the random source repeats its draws, a second
  entity receives the identifier of the first, already in the store, and the two components
  of one entity receive the same component identifier.
\<close>

theorem add_entity_repeats_identifiers:
  "add_entity plain_text new_entity_A empty_db
     = Inr (''0aaaaaaaaaaaaaaa'',
        \<lparr>uid = Some ''0aaaaaaaaaaaaaaa'', attached = True,
         components = [\<lparr>type_name = ''A'', c_uid = Some ''aaaaaaaaaaaaaaaa'', variables = [(''x'', ''1'')]\<rparr>],
         unloaded_components = []\<rparr>,
        db_with_A)
   \<and> add_entity plain_text new_entity_AB db_with_A
     = Inr (''0aaaaaaaaaaaaaaa'',
        \<lparr>uid = Some ''0aaaaaaaaaaaaaaa'', attached = True,
         components = [\<lparr>type_name = ''A'', c_uid = Some ''aaaaaaaaaaaaaaaa'', variables = [(''x'', ''1'')]\<rparr>,
                       \<lparr>type_name = ''B'', c_uid = Some ''aaaaaaaaaaaaaaaa'', variables = [(''dx'', ''2'')]\<rparr>],
         unloaded_components = []\<rparr>,
        \<lparr>bucket = [(''ent/0aaaaaaaaaaaaaaa/A-aaaaaaaaaaaaaaaa'', [], ''text/plain''),
                   (''cmp/A/0aaaaaaaaaaaaaaa-aaaaaaaaaaaaaaaa'', [], ''text/plain''),
                   (''dat/aaaaaaaaaaaaaaaa/x'', ''1'', ''text/plain''),
                   (''ent/0aaaaaaaaaaaaaaa/B-aaaaaaaaaaaaaaaa'', [], ''text/plain''),
                   (''cmp/B/0aaaaaaaaaaaaaaa-aaaaaaaaaaaaaaaa'', [], ''text/plain''),
                   (''dat/aaaaaaaaaaaaaaaa/dx'', ''2'', ''text/plain'')],
         component_classes = [''B'', ''A''], rand = zero_draws, tick = 80\<rparr>)"
proof -
  have first: "add_entity plain_text new_entity_A empty_db
     = Inr (''0aaaaaaaaaaaaaaa'',
        \<lparr>uid = Some ''0aaaaaaaaaaaaaaa'', attached = True,
         components = [\<lparr>type_name = ''A'', c_uid = Some ''aaaaaaaaaaaaaaaa'', variables = [(''x'', ''1'')]\<rparr>],
         unloaded_components = []\<rparr>,
        db_with_A)"
    by (simp add: add_entity_eval new_entity_A_def component_A_def empty_db_def db_with_A_def)
  have second: "add_entity plain_text new_entity_AB db_with_A
     = Inr (''0aaaaaaaaaaaaaaa'',
        \<lparr>uid = Some ''0aaaaaaaaaaaaaaa'', attached = True,
         components = [\<lparr>type_name = ''A'', c_uid = Some ''aaaaaaaaaaaaaaaa'', variables = [(''x'', ''1'')]\<rparr>,
                       \<lparr>type_name = ''B'', c_uid = Some ''aaaaaaaaaaaaaaaa'', variables = [(''dx'', ''2'')]\<rparr>],
         unloaded_components = []\<rparr>,
        \<lparr>bucket = [(''ent/0aaaaaaaaaaaaaaa/A-aaaaaaaaaaaaaaaa'', [], ''text/plain''),
                   (''cmp/A/0aaaaaaaaaaaaaaa-aaaaaaaaaaaaaaaa'', [], ''text/plain''),
                   (''dat/aaaaaaaaaaaaaaaa/x'', ''1'', ''text/plain''),
                   (''ent/0aaaaaaaaaaaaaaa/B-aaaaaaaaaaaaaaaa'', [], ''text/plain''),
                   (''cmp/B/0aaaaaaaaaaaaaaa-aaaaaaaaaaaaaaaa'', [], ''text/plain''),
                   (''dat/aaaaaaaaaaaaaaaa/dx'', ''2'', ''text/plain'')],
         component_classes = [''B'', ''A''], rand = zero_draws, tick = 80\<rparr>)"
    by (simp add: add_entity_eval new_entity_AB_def component_A_def component_B_def db_with_A_def)
  show ?thesis using first second by (intro conjI)
qed

text \<open>
  Claim C5 as stated says that \<^verbatim>\<open>add_entity\<close> on a persisted entity fails and
  writes nothing. On the first entity of the example store, which carries the identifier
  \<^verbatim>\<open>1aaaaaaaaaaaaaaa\<close>, the call returns a new identifier, leaves it on the entity, and
  adds a forward-index blob, a type-index blob and a field blob under the new identifiers.
\<close>

theorem add_entity_on_persisted_entity:
  "uid loaded_entity_A = Some ''1aaaaaaaaaaaaaaa''
   \<and> add_entity plain_text loaded_entity_A example_db
     = Inr (''0aaaaaaaaaaaaaaa'',
        \<lparr>uid = Some ''0aaaaaaaaaaaaaaa'', attached = True,
         components = [\<lparr>type_name = ''A'', c_uid = Some ''aaaaaaaaaaaaaaaa'', variables = [(''x'', ''7'')]\<rparr>],
         unloaded_components = [''B'']\<rparr>,
        \<lparr>bucket = bucket example_db
                   @ [(''ent/0aaaaaaaaaaaaaaa/A-aaaaaaaaaaaaaaaa'', [], ''text/plain''),
                      (''cmp/A/0aaaaaaaaaaaaaaa-aaaaaaaaaaaaaaaa'', [], ''text/plain''),
                      (''dat/aaaaaaaaaaaaaaaa/x'', ''7'', ''text/plain'')],
         component_classes = [''A'', ''B''], rand = zero_draws, tick = 32\<rparr>)"
  by (simp add: add_entity_eval loaded_entity_A_def example_db_def)

text \<open>
  Claim C6 as stated says that \<^verbatim>\<open>update_entity\<close> leaves the record of every
  component that is not loaded unchanged. The field store is keyed by the component
  identifier alone, and \<^verbatim>\<open>add_entity\<close> can give two components one identifier. In
  the store it builds then, the field \<^verbatim>\<open>x\<close> of component \<open>B\<close> holds 2;
  \<^verbatim>\<open>update_entity\<close> on the handle that has only component \<open>A\<close> loaded, with
  the value 7, turns it into 7.
\<close>

theorem update_entity_changes_unloaded_component:
  "add_entity plain_text new_entity_AB_x empty_db
     = Inr (''0aaaaaaaaaaaaaaa'',
        \<lparr>uid = Some ''0aaaaaaaaaaaaaaa'', attached = True,
         components = [\<lparr>type_name = ''A'', c_uid = Some ''aaaaaaaaaaaaaaaa'', variables = [(''x'', ''1'')]\<rparr>,
                       \<lparr>type_name = ''B'', c_uid = Some ''aaaaaaaaaaaaaaaa'', variables = [(''x'', ''2'')]\<rparr>],
         unloaded_components = []\<rparr>,
        collided_db)
   \<and> map_of (bucket collided_db) (data_blob_name ''aaaaaaaaaaaaaaaa'' ''x'') = Some (''2'', ''text/plain'')
   \<and> map type_name (get_components collided_entity_A) = [''A'']
   \<and> map_of (bucket (update_entity plain_text collided_entity_A collided_db))
         (data_blob_name ''aaaaaaaaaaaaaaaa'' ''x'') = Some (''7'', ''text/plain'')"
proof -
  have built: "add_entity plain_text new_entity_AB_x empty_db
     = Inr (''0aaaaaaaaaaaaaaa'',
        \<lparr>uid = Some ''0aaaaaaaaaaaaaaa'', attached = True,
         components = [\<lparr>type_name = ''A'', c_uid = Some ''aaaaaaaaaaaaaaaa'', variables = [(''x'', ''1'')]\<rparr>,
                       \<lparr>type_name = ''B'', c_uid = Some ''aaaaaaaaaaaaaaaa'', variables = [(''x'', ''2'')]\<rparr>],
         unloaded_components = []\<rparr>,
        collided_db)"
    by (simp add: add_entity_eval new_entity_AB_x_def component_A_def component_B_x_def empty_db_def
        collided_db_def)
  have before: "map_of (bucket collided_db) (data_blob_name ''aaaaaaaaaaaaaaaa'' ''x'')
      = Some (''2'', ''text/plain'')"
    by (simp add: collided_db_def data_blob_name_def DATA_FOLDER_def)
  have loaded: "map type_name (get_components collided_entity_A) = [''A'']"
    by (simp add: collided_entity_A_def get_components_def)
  have after: "map_of (bucket (update_entity plain_text collided_entity_A collided_db))
         (data_blob_name ''aaaaaaaaaaaaaaaa'' ''x'') = Some (''7'', ''text/plain'')"
    by (simp add: update_entity_def write_variables_def create_data_blob_def get_components_def
        get_variables_of_def collided_entity_A_def collided_db_def data_blob_name_def DATA_FOLDER_def
        plain_text_def)
  show ?thesis using built before loaded after by (intro conjI)
qed


end
